theory Spec2Isabelle
  imports Complex_Main "HOL-Library.Log_Nat"
begin


section \<open>JavaScript strings and \<open>cleanJSONText\<close>\<close>

text \<open>
  Source: \<open>cleanJSONText\<close> in \<open>src/server.ts\<close> (lines 60-67) and, with the same body,
  in \<open>src/server/services/ai.service.ts\<close> (lines 230-237):
  \<^verbatim>\<open>
  function cleanJSONText(text: string): string {
    let cleaned = text.trim();
    cleaned = cleaned.replace(/^```json\s*/m, '');
    cleaned = cleaned.replace(/^```\s*/m, '');
    cleaned = cleaned.replace(/```\s*$/m, '');
    cleaned = cleaned.replace(/[\x00-\x08\x0B\x0C\x0E-\x1F\x7F]/g, '');
    return cleaned.trim();
  }
  \<close>
  A JavaScript string is a sequence of UTF-16 code units, and neither \<open>trim\<close> nor a
  regular expression without the \<open>u\<close> flag looks at anything but code units. A string
  is therefore a list of code units, each given by its number.
\<close>

type_synonym jsstring = "nat list"

text \<open>
  The ECMAScript line terminators: LF, CR, LINE SEPARATOR and PARAGRAPH SEPARATOR. In
  multiline mode \<open>^\<close> matches at the start of the input and right after one of them,
  \<open>$\<close> at the end of the input and right before one of them.
\<close>

definition isLineTerminator :: "nat \<Rightarrow> bool" where
  "isLineTerminator c \<longleftrightarrow> c = 10 \<or> c = 13 \<or> c = 8232 \<or> c = 8233"

text \<open>
  What \<open>String.prototype.trim\<close> strips and what \<open>\s\<close> matches: the ECMAScript
  WhiteSpace code points (TAB, VT, FF, SP, NBSP, ZWNBSP and the category Zs) together with
  the line terminators.
\<close>

definition isWhiteSpace :: "nat \<Rightarrow> bool" where
  "isWhiteSpace c \<longleftrightarrow>
     c = 9 \<or> c = 10 \<or> c = 11 \<or> c = 12 \<or> c = 13 \<or> c = 32 \<or> c = 160 \<or> c = 5760 \<or>
     (8192 \<le> c \<and> c \<le> 8202) \<or> c = 8232 \<or> c = 8233 \<or> c = 8239 \<or> c = 8287 \<or>
     c = 12288 \<or> c = 65279"

text \<open>The character class \<open>[\x00-\x08\x0B\x0C\x0E-\x1F\x7F]\<close> of the fourth replacement.\<close>

definition isControl :: "nat \<Rightarrow> bool" where
  "isControl c \<longleftrightarrow> c \<le> 8 \<or> c = 11 \<or> c = 12 \<or> (14 \<le> c \<and> c \<le> 31) \<or> c = 127"

definition trim :: "jsstring \<Rightarrow> jsstring" where
  "trim s = rev (dropWhile isWhiteSpace (rev (dropWhile isWhiteSpace s)))"

text \<open>The literals of the three fence patterns: three backticks, and three backticks and \<open>json\<close>.\<close>

definition fence :: jsstring where
  "fence = [96, 96, 96]"

definition fence_json :: jsstring where
  "fence_json = [96, 96, 96, 106, 115, 111, 110]"

text \<open>
  \<open>s.replace(/^LIT\s*/m, '')\<close> for a literal \<open>LIT\<close>: the regular expression is not global,
  so only the leftmost match is replaced. The scan goes through the start positions from
  left to right; \<open>bol\<close> says whether the current position is the start of a line. At a
  match the literal and the longest run of white space after it (\<open>\s*\<close> is greedy and
  nothing follows it) are removed.
\<close>

fun replace_at_line_start :: "jsstring \<Rightarrow> bool \<Rightarrow> jsstring \<Rightarrow> jsstring" where
  "replace_at_line_start lit bol [] = []"
| "replace_at_line_start lit bol (c # cs) =
     (if bol \<and> take (length lit) (c # cs) = lit
      then dropWhile isWhiteSpace (drop (length lit) (c # cs))
      else c # replace_at_line_start lit (isLineTerminator c) cs)"

text \<open>
  The tail \<open>\s*$\<close> of the third pattern, tried right after the three backticks. The
  result is what is left of the input after the match, or \<open>None\<close> when there is no match.
  \<open>\s*\<close> first takes a white space character and the rest is matched after it; when that
  fails it gives the character back and \<open>$\<close> is tried in front of it.
\<close>

fun match_space_to_line_end :: "jsstring \<Rightarrow> jsstring option" where
  "match_space_to_line_end [] = Some []"
| "match_space_to_line_end (c # cs) =
     (if isWhiteSpace c
      then (case match_space_to_line_end cs of
              Some r \<Rightarrow> Some r
            | None \<Rightarrow> if isLineTerminator c then Some (c # cs) else None)
      else if isLineTerminator c then Some (c # cs) else None)"

text \<open>\<open>s.replace(/```\s*$/m, '')\<close>: the leftmost start position with a match wins.\<close>

fun replace_fence_at_line_end :: "jsstring \<Rightarrow> jsstring" where
  "replace_fence_at_line_end [] = []"
| "replace_fence_at_line_end (c # cs) =
     (if take (length fence) (c # cs) = fence
      then (case match_space_to_line_end (drop (length fence) (c # cs)) of
              Some r \<Rightarrow> r
            | None \<Rightarrow> c # replace_fence_at_line_end cs)
      else c # replace_fence_at_line_end cs)"

text \<open>The global replacement of the control characters by the empty string.\<close>

definition remove_control :: "jsstring \<Rightarrow> jsstring" where
  "remove_control s = filter (\<lambda>c. \<not> isControl c) s"

definition cleanJSONText :: "jsstring \<Rightarrow> jsstring" where
  "cleanJSONText text0 =
     (let cleaned = trim text0;
          cleaned = replace_at_line_start fence_json True cleaned;
          cleaned = replace_at_line_start fence True cleaned;
          cleaned = replace_fence_at_line_end cleaned;
          cleaned = remove_control cleaned
      in trim cleaned)"


section \<open>The handler of \<open>POST /analyze-basic\<close>\<close>

text \<open>
  A parsed JSON value, as \<open>express.json()\<close> leaves it in \<open>req.body\<close> and as \<open>res.json\<close>
  takes it. \<open>JUndefined\<close> is what reading a property that is not there gives. An object
  is the list of its own properties, each name once. A number is given by its value;
  \<open>JSON.parse\<close> yields no NaN, so zero is the only number that is falsy.
\<close>

datatype js_value =
    JUndefined
  | JNull
  | JBool bool
  | JNum real
  | JStr string
  | JArray "js_value list"
  | JObject "(string \<times> js_value) list"

text \<open>JavaScript's ToBoolean, which \<open>!address\<close> negates.\<close>

fun truthy :: "js_value \<Rightarrow> bool" where
  "truthy JUndefined = False"
| "truthy JNull = False"
| "truthy (JBool b) = b"
| "truthy (JNum x) = (x \<noteq> 0)"
| "truthy (JStr s) = (s \<noteq> [])"
| "truthy (JArray xs) = True"
| "truthy (JObject kvs) = True"

text \<open>
  \<open>const { address } = req.body\<close>. Destructuring \<open>undefined\<close> or \<open>null\<close> throws a
  TypeError (\<open>Inl\<close>, with the message of V8); every other value is read for its property
  \<open>address\<close>, which only an object can own.
\<close>

fun destructure_address :: "js_value \<Rightarrow> string + js_value" where
  "destructure_address JUndefined =
     Inl ''Cannot destructure property 'address' of 'req.body' as it is undefined.''"
| "destructure_address JNull =
     Inl ''Cannot destructure property 'address' of 'req.body' as it is null.''"
| "destructure_address (JObject kvs) =
     Inr (case map_of kvs ''address'' of None \<Rightarrow> JUndefined | Some v \<Rightarrow> v)"
| "destructure_address v = Inr JUndefined"

record http_response =
  status :: nat
  body :: js_value

text \<open>
  What one run of the handler does: the response it sends, and the arguments of its calls of
  \<open>analyzeBasicWallet\<close>, in order. \<open>analyzeBasicWallet\<close> fetches the portfolio from
  Zerion and asks the language model, so a run that never calls it makes neither request.
\<close>

record handler_run =
  response :: http_response
  analyzed :: "js_value list"

text \<open>The UTF-8 bytes of U+1F389, the party popper that starts the message of a success.\<close>

definition party_popper :: string where
  "party_popper = [CHR 0xF0, CHR 0x9F, CHR 0x8E, CHR 0x89]"

text \<open>The response of the \<open>catch\<close> block: \<open>res.status(500).json({error, message})\<close>.\<close>

definition analysis_failed :: "string \<Rightarrow> http_response" where
  "analysis_failed msg =
     \<lparr>status = 500,
      body = JObject [(''error'', JStr ''Analysis failed''), (''message'', JStr msg)]\<rparr>"

text \<open>
  Source: \<open>router.post("/analyze-basic", ...)\<close> in \<open>src/server/routes/wallet.routes.ts\<close>
  (lines 6-37) and \<open>app.post("/analyze-basic", ...)\<close> in \<open>src/server.ts\<close> (lines 249-280),
  which have the same body:
  \<^verbatim>\<open>
  try {
    const { address } = req.body;
    if (!address) {
      return res.status(400).json({
        error: "Missing required field: address",
        message: "Please provide a wallet address to analyze",
      });
    }
    console.log(`... Basic analysis: ${address}`);
    const analysis = await analyzeBasicWallet(address);
    console.log(`... Complete - Score: ${analysis.healthScore}/100`);
    res.json({ message: "... Basic wallet analysis complete!", analysis, info: {...} });
  } catch (error: any) {
    res.status(500).json({ error: "Analysis failed", message: error.message });
  }
  \<close>
  \<open>analyzeBasicWallet\<close> calls Zerion and Groq; it is a parameter: the message of the error
  it throws (\<open>Inl\<close>) or the analysis it returns. The handler's console output is left out,
  but not what building its lines can throw.

  The template literal \<open>${address}\<close> converts the address to a string. For a value that
  \<open>JSON.parse\<close> gave, this throws a TypeError in one case only: an object that owns a
  property \<open>toString\<close>. No parsed value is a function, so the conversion skips the own
  \<open>toString\<close> and is left with \<open>valueOf\<close>, which is the object's own and no function
  either, or the inherited one, which returns the object itself and no primitive. An array
  is joined, which converts each of its elements but \<open>null\<close> and \<open>undefined\<close> in the
  same way.
\<close>

fun toString_throws :: "js_value \<Rightarrow> bool" where
  "toString_throws (JObject kvs) = (''toString'' \<in> fst ` set kvs)"
| "toString_throws (JArray xs) = (\<exists>x \<in> set xs. toString_throws x)"
| "toString_throws v = False"

definition address_unprintable :: "js_value \<Rightarrow> string option" where
  "address_unprintable address =
     (if toString_throws address then Some ''Cannot convert object to primitive value''
      else None)"

text \<open>
  \<open>${analysis.healthScore}\<close>: reading the property throws a TypeError when the analysis
  is \<open>undefined\<close> or \<open>null\<close>; what is read (\<open>undefined\<close> when the analysis owns no such
  property) is converted to a string as above.
\<close>

definition healthScore_unreadable :: "js_value \<Rightarrow> string option" where
  "healthScore_unreadable analysis =
     (if analysis = JUndefined
      then Some ''Cannot read properties of undefined (reading 'healthScore')''
      else if analysis = JNull
      then Some ''Cannot read properties of null (reading 'healthScore')''
      else
        (case analysis of
           JObject kvs \<Rightarrow>
             (case map_of kvs ''healthScore'' of
                None \<Rightarrow> None
              | Some score \<Rightarrow>
                  if toString_throws score then Some ''Cannot convert object to primitive value''
                  else None)
         | _ \<Rightarrow> None))"

definition analyze_basic_handler ::
    "(js_value \<Rightarrow> string + js_value) \<Rightarrow> js_value \<Rightarrow> handler_run" where
  "analyze_basic_handler analyzeBasicWallet req_body =
     (case destructure_address req_body of
        Inl msg \<Rightarrow> \<lparr>response = analysis_failed msg, analyzed = []\<rparr>
      | Inr address \<Rightarrow>
          if \<not> truthy address
          then \<lparr>response =
                  \<lparr>status = 400,
                   body = JObject
                     [(''error'', JStr ''Missing required field: address''),
                      (''message'', JStr ''Please provide a wallet address to analyze'')]\<rparr>,
                analyzed = []\<rparr>
          else
            (case address_unprintable address of
               Some msg \<Rightarrow> \<lparr>response = analysis_failed msg, analyzed = []\<rparr>
             | None \<Rightarrow>
                 (case analyzeBasicWallet address of
                    Inl msg \<Rightarrow> \<lparr>response = analysis_failed msg, analyzed = [address]\<rparr>
                  | Inr analysis \<Rightarrow>
                      (case healthScore_unreadable analysis of
                         Some msg \<Rightarrow> \<lparr>response = analysis_failed msg, analyzed = [address]\<rparr>
                       | None \<Rightarrow>
                           \<lparr>response =
                              \<lparr>status = 200,
                               body = JObject
                                 [(''message'',
                                   JStr (party_popper @ '' Basic wallet analysis complete!'')),
                                  (''analysis'', analysis),
                                  (''info'', JObject
                                     [(''model'', JStr ''Groq AI (Moonshot Kimi K2)''),
                                      (''dataSource'', JStr ''Zerion API''),
                                      (''analysisType'', JStr ''basic'')])]\<rparr>,
                            analyzed = [address]\<rparr>))))"


section \<open>\<open>calculateChainDistribution\<close>\<close>

text \<open>
  Source: \<open>calculateChainDistribution\<close> in \<open>src/server/services/ai.service.ts\<close>
  (lines 205-214); the same loop stands in \<open>src/server.ts\<close> (lines 322-326):
  \<^verbatim>\<open>
  const chainDistribution: Record<string, number> = {};
  positions.forEach((pos: any) => {
    const chain = pos.relationships?.chain?.data?.id || "unknown";
    chainDistribution[chain] = (chainDistribution[chain] || 0) + pos.attributes.value;
  });
  return chainDistribution;
  \<close>
  A position, as far as the function reads it. Each link of
  \<open>pos.relationships?.chain?.data?.id\<close> may be missing (\<open>None\<close>); the id is a string, as
  Zerion's chain ids are. \<open>pos.attributes.value\<close> is a number.
\<close>

record chain_data =
  data_id :: "string option"

record chain_ref =
  chain_data :: "chain_data option"

record relationships =
  rel_chain :: "chain_ref option"

record attributes =
  attr_value :: int

record position =
  pos_relationships :: "relationships option"
  pos_attributes :: attributes

text \<open>
  \<open>pos.relationships?.chain?.data?.id || "unknown"\<close>: a missing link gives \<open>undefined\<close>,
  and \<open>undefined\<close> and the empty string are falsy.
\<close>

definition chain_of :: "position \<Rightarrow> string" where
  "chain_of pos =
     (case pos_relationships pos of
        None \<Rightarrow> ''unknown''
      | Some r \<Rightarrow>
          (case rel_chain r of
             None \<Rightarrow> ''unknown''
           | Some c \<Rightarrow>
               (case chain_data c of
                  None \<Rightarrow> ''unknown''
                | Some d \<Rightarrow>
                    (case data_id d of
                       None \<Rightarrow> ''unknown''
                     | Some i \<Rightarrow> if i = [] then ''unknown'' else i))))"

text \<open>
  A JavaScript number is an IEEE 754 double, and \<open>+\<close> rounds the exact sum to the nearest
  double, ties to the even significand; a sum that rounds to a magnitude of \<open>2^1024\<close> or
  more is \<open>Infinity\<close> or \<open>-Infinity\<close>. The model covers the values \<open>pos.attributes.value\<close>
  that are integers: such a number is an \<open>int\<close>, every integer up to \<open>2^53\<close> in magnitude
  is a double, and above that the doubles are the multiples of \<open>2^(n - 53)\<close> for an integer
  of \<open>n\<close> bits. \<open>round_double\<close> is the rounding to 53 significant bits.
\<close>

definition round_double :: "int \<Rightarrow> int" where
  "round_double x =
     (if \<bar>x\<bar> \<le> 2 ^ 53 then x
      else
        (let q = 2 ^ nat (bitlen \<bar>x\<bar> - 53);
             m = x div q;
             r = x mod q
         in if 2 * r < q then m * q
            else if q < 2 * r then (m + 1) * q
            else if even m then m * q
            else (m + 1) * q))"

text \<open>
  \<open>chainDistribution\<close> starts as \<open>{}\<close>, an object whose prototype is \<open>Object.prototype\<close>.
  What it holds under a name, or what reading a name gives, is a number (an integer, or
  one of the two infinities), a string that is not empty (its text does not matter here),
  or an object. The record is the list of its own properties in the order of their
  creation (JavaScript enumerates the names that are array indices first; the order does
  not enter the totals).
\<close>

datatype cell =
    Num int
  | PlusInfinity
  | MinusInfinity
  | Text
  | Obj

text \<open>The sum of two integers as JavaScript computes it.\<close>

definition js_add :: "int \<Rightarrow> int \<Rightarrow> cell" where
  "js_add a b =
     (let s = round_double (a + b)
      in if 2 ^ 1024 \<le> s then PlusInfinity
         else if s \<le> - (2 ^ 1024) then MinusInfinity
         else Num s)"

text \<open>
  The names every object inherits from \<open>Object.prototype\<close>: eleven functions, and the
  accessor \<open>__proto__\<close>, which reads as the prototype object and whose setter ignores a
  value that is neither an object nor \<open>null\<close>.
\<close>

definition object_prototype_names :: "string list" where
  "object_prototype_names =
     [''constructor'', ''__defineGetter__'', ''__defineSetter__'', ''hasOwnProperty'',
      ''__lookupGetter__'', ''__lookupSetter__'', ''isPrototypeOf'', ''propertyIsEnumerable'',
      ''toString'', ''valueOf'', ''__proto__'', ''toLocaleString'']"

text \<open>
  \<open>chainDistribution[chain] || 0\<close>: the own property when there is one (\<open>0\<close> when it is
  the number \<open>0\<close>, the only falsy one of the values above), else what is inherited under
  the name, a function or the prototype object, both truthy; else \<open>undefined\<close>, which is
  falsy, so \<open>0\<close>.
\<close>

definition current_or_zero :: "(string \<times> cell) list \<Rightarrow> string \<Rightarrow> cell" where
  "current_or_zero distribution k =
     (case map_of distribution k of
        Some (Num x) \<Rightarrow> if x = 0 then Num 0 else Num x
      | Some c \<Rightarrow> c
      | None \<Rightarrow> if k \<in> set object_prototype_names then Obj else Num 0)"

text \<open>
  \<open>... + pos.attributes.value\<close>: the sum of two numbers, where an infinity stays what it is
  when an integer is added; a string or an object on the left makes \<open>+\<close> the concatenation
  of strings.
\<close>

definition plus_number :: "cell \<Rightarrow> int \<Rightarrow> cell" where
  "plus_number c v =
     (case c of
        Num x \<Rightarrow> js_add x v
      | PlusInfinity \<Rightarrow> PlusInfinity
      | MinusInfinity \<Rightarrow> MinusInfinity
      | Text \<Rightarrow> Text
      | Obj \<Rightarrow> Text)"

text \<open>
  The own property \<open>k\<close> set to \<open>c\<close>: replaced in place when it is there, added at the end
  when it is not.
\<close>

fun set_own :: "string \<Rightarrow> cell \<Rightarrow> (string \<times> cell) list \<Rightarrow> (string \<times> cell) list" where
  "set_own k c [] = [(k, c)]"
| "set_own k c (p # ps) = (if fst p = k then (k, c) # ps else p # set_own k c ps)"

text \<open>
  \<open>chainDistribution[chain] = ...\<close>, for a number or a string on the right: under
  \<open>__proto__\<close> the assignment goes to the setter, which ignores it; under every other name
  it sets the own property.
\<close>

definition assign :: "string \<Rightarrow> cell \<Rightarrow> (string \<times> cell) list \<Rightarrow> (string \<times> cell) list" where
  "assign k c distribution = (if k = ''__proto__'' then distribution else set_own k c distribution)"

definition add_position :: "(string \<times> cell) list \<Rightarrow> position \<Rightarrow> (string \<times> cell) list" where
  "add_position distribution pos =
     (let chain = chain_of pos
      in assign chain
           (plus_number (current_or_zero distribution chain) (attr_value (pos_attributes pos)))
           distribution)"

fun forEach_position :: "(string \<times> cell) list \<Rightarrow> position list \<Rightarrow> (string \<times> cell) list" where
  "forEach_position distribution [] = distribution"
| "forEach_position distribution (pos # positions) =
     forEach_position (add_position distribution pos) positions"

definition calculateChainDistribution :: "position list \<Rightarrow> (string \<times> cell) list" where
  "calculateChainDistribution positions = forEach_position [] positions"

text \<open>
  The two totals of the claim, as exact sums: of the numbers the record holds (\<open>None\<close> when
  it holds something that is not an integer), and of the numbers the positions hold.
  \<open>js_sum\<close> is the second total as JavaScript would add it up, left to right from \<open>0\<close>.
\<close>

fun record_total :: "(string \<times> cell) list \<Rightarrow> int option" where
  "record_total [] = Some 0"
| "record_total ((k, Num x) # ps) = map_option (\<lambda>t. x + t) (record_total ps)"
| "record_total ((k, c) # ps) = None"

definition positions_total :: "position list \<Rightarrow> int" where
  "positions_total positions = sum_list (map (\<lambda>pos. attr_value (pos_attributes pos)) positions)"

definition js_sum :: "int list \<Rightarrow> cell" where
  "js_sum xs = foldl plus_number (Num 0) xs"


section \<open>The client: configuration, wallets and signers\<close>

text \<open>
  Source: \<open>src/client/config.ts\<close>. \<open>process.env\<close>, after \<open>dotenv\<close> has read the \<open>.env\<close>
  file, maps the names of the variables that are set to their strings.
  \<^verbatim>\<open>
  export const SERVER_URL = process.env.SERVER_URL || "http://localhost:3000";
  export const SOLANA_WALLET_PATH = process.env.SOLANA_WALLET_PATH || "./src/client.json";
  export const EVM_PRIVATE_KEY = process.env.EVM_PRIVATE_KEY;
  export const SOLANA_NETWORK = process.env.SOLANA_NETWORK || "solana-devnet" as Network;
  export const EVM_NETWORK = process.env.EVM_NETWORK || "base-sepolia" as Network;
  \<close>
  \<open>a || b\<close> is \<open>b\<close> when \<open>a\<close> is \<open>undefined\<close> or the empty string.
\<close>

type_synonym environment = "string \<rightharpoonup> string"

definition env_or :: "environment \<Rightarrow> string \<Rightarrow> string \<Rightarrow> string" where
  "env_or env name dflt = (case env name of None \<Rightarrow> dflt | Some v \<Rightarrow> if v = [] then dflt else v)"


definition SOLANA_WALLET_PATH :: "environment \<Rightarrow> string" where
  "SOLANA_WALLET_PATH env = env_or env ''SOLANA_WALLET_PATH'' ''./src/client.json''"

definition EVM_PRIVATE_KEY :: "environment \<Rightarrow> string option" where
  "EVM_PRIVATE_KEY env = env ''EVM_PRIVATE_KEY''"

definition SOLANA_NETWORK :: "environment \<Rightarrow> string" where
  "SOLANA_NETWORK env = env_or env ''SOLANA_NETWORK'' ''solana-devnet''"

definition EVM_NETWORK :: "environment \<Rightarrow> string" where
  "EVM_NETWORK env = env_or env ''EVM_NETWORK'' ''base-sepolia''"

text \<open>
  The packages the client imports are parameters. \<open>createSigner\<close> (of \<open>x402-axios\<close>) takes
  a network and a private key and gives a signer, of some type \<open>'h\<close>, or rejects (\<open>Inl\<close>,
  with the message). \<open>parse_keypair\<close> is \<open>Uint8Array.from(JSON.parse(...))\<close> on a file's
  text: the bytes of the secret key, or \<open>None\<close> when it throws. \<open>bs58_encode\<close> is
  \<open>bs58.encode\<close>.
\<close>

record 'h packages =
  createSigner :: "string \<Rightarrow> string \<Rightarrow> string + 'h"
  parse_keypair :: "string \<Rightarrow> nat list option"
  bs58_encode :: "nat list \<Rightarrow> string"

text \<open>The file system: the text of every file that exists and can be read, by its path.\<close>

type_synonym file_system = "string \<rightharpoonup> string"

record SolanaWallet =
  privateKeyBase58 :: string
  publicKey :: string

text \<open>
  The errors the client's functions throw: \<open>Solana wallet not found at: <path>\<close>, whatever
  \<open>JSON.parse\<close> or \<open>Uint8Array.from\<close> throws on the file's text, \<open>No wallets available\<close>, and
  the rejection of \<open>createSigner\<close>.
\<close>

datatype client_error =
    SolanaWalletNotFound string
  | KeypairNotParsed
  | NoWalletsAvailable
  | SignerRejected string

text \<open>
  Source: \<open>loadSolanaWallet\<close> in \<open>src/client/loadWallet.ts\<close> (lines 17-29).
  \<^verbatim>\<open>
  if (!existsSync(walletPath)) {
    throw new Error(`Solana wallet not found at: ${walletPath}`);
  }
  const keypairData = JSON.parse(readFileSync(walletPath, "utf-8"));
  const secretKey = Uint8Array.from(keypairData);
  const privateKeyBase58 = bs58.encode(secretKey);
  const publicKeyBytes = secretKey.slice(32, 64);
  const publicKey = bs58.encode(publicKeyBytes);
  return { privateKeyBase58, publicKey };
  \<close>
\<close>

definition loadSolanaWallet ::
    "'h packages \<Rightarrow> file_system \<Rightarrow> string \<Rightarrow> client_error + SolanaWallet" where
  "loadSolanaWallet pkg files walletPath =
     (case files walletPath of
        None \<Rightarrow> Inl (SolanaWalletNotFound walletPath)
      | Some contents \<Rightarrow>
          (case parse_keypair pkg contents of
             None \<Rightarrow> Inl KeypairNotParsed
           | Some secretKey \<Rightarrow>
               Inr \<lparr>privateKeyBase58 = bs58_encode pkg secretKey,
                    publicKey = bs58_encode pkg (take 32 (drop 32 secretKey))\<rparr>))"

text \<open>
  The Network Signer Registry of the specification is the \<open>signer\<close> the client hands to
  \<open>withPaymentInterceptor\<close>: one signer, or \<open>{ evm: evmSigner, svm: svmSigner }\<close>.
\<close>

datatype 'h network_signer =
    Single 'h
  | Multi (evm: 'h) (svm: 'h)

text \<open>
  \<open>walletInfo\<close>: \<open>walletInfo.solana = { address, network }\<close> and
  \<open>walletInfo.evm = { network }\<close>, each set only in the modes that have the wallet.
\<close>

record wallet_info =
  solana :: "(string \<times> string) option"
  evm_network :: "string option"

record 'h loaded_signers =
  signer :: "'h network_signer"
  walletInfo :: wallet_info

text \<open>The UTF-8 bytes of the signs that start console lines: U+26A0 U+FE0F, U+274C, U+1F4A1.\<close>

definition warning_sign :: string where
  "warning_sign = [CHR 0xE2, CHR 0x9A, CHR 0xA0, CHR 0xEF, CHR 0xB8, CHR 0x8F]"

definition cross_mark :: string where
  "cross_mark = [CHR 0xE2, CHR 0x9D, CHR 0x8C]"

definition light_bulb :: string where
  "light_bulb = [CHR 0xF0, CHR 0x9F, CHR 0x92, CHR 0xA1]"

text \<open>\<open>if (EVM_PRIVATE_KEY)\<close>: the key when it is set and not the empty string.\<close>

definition evm_key :: "environment \<Rightarrow> string option" where
  "evm_key env =
     (case EVM_PRIVATE_KEY env of None \<Rightarrow> None | Some k \<Rightarrow> if k = [] then None else Some k)"

text \<open>\<open>await createSigner(network, key)\<close>, a rejection turned into the function's error.\<close>

definition await_signer :: "'h packages \<Rightarrow> string \<Rightarrow> string \<Rightarrow> client_error + 'h" where
  "await_signer pkg network key =
     (case createSigner pkg network key of Inl msg \<Rightarrow> Inl (SignerRejected msg) | Inr h \<Rightarrow> Inr h)"

text \<open>
  Source: \<open>loadMultiNetworkSigners\<close> in \<open>src/client/loadWallet.ts\<close> (lines 32-79).
  \<^verbatim>\<open>
  let solanaWallet: SolanaWallet | undefined;
  let hasEVM = false;
  try { solanaWallet = loadSolanaWallet(); }
  catch (error) { console.log("<warning sign>  Solana wallet not found"); }
  if (EVM_PRIVATE_KEY) { hasEVM = true; }
  if (!solanaWallet && !hasEVM) {
    console.error("<cross mark> No wallets found");
    console.log("\n<light bulb> Setup:");
    console.log("   Solana: solana-keygen new --outfile ./src/client.json");
    console.log("   EVM: Add EVM_PRIVATE_KEY=0x... to .env");
    throw new Error("No wallets available");
  }
  let signer: any;
  const walletInfo: any = {};
  if (solanaWallet && hasEVM) {
    const svmSigner = await createSigner(SOLANA_NETWORK as any, solanaWallet.privateKeyBase58);
    const evmSigner = await createSigner(EVM_NETWORK as any, EVM_PRIVATE_KEY as Hex);
    signer = { evm: evmSigner, svm: svmSigner } as MultiNetworkSigner;
    walletInfo.solana = { address: solanaWallet.publicKey, network: SOLANA_NETWORK };
    walletInfo.evm = { network: EVM_NETWORK };
  } else if (solanaWallet) {
    signer = await createSigner(SOLANA_NETWORK as any, solanaWallet.privateKeyBase58);
    walletInfo.solana = { address: solanaWallet.publicKey, network: SOLANA_NETWORK };
  } else {
    signer = await createSigner(EVM_NETWORK as any, EVM_PRIVATE_KEY as Hex);
    walletInfo.evm = { network: EVM_NETWORK };
  }
  return { signer, walletInfo };
  \<close>
  The result is the lines written to the console and what the function returns or throws.
\<close>

definition loadMultiNetworkSigners ::
    "'h packages \<Rightarrow> environment \<Rightarrow> file_system \<Rightarrow>
       string list \<times> (client_error + 'h loaded_signers)" where
  "loadMultiNetworkSigners pkg env files =
     (let attempt = loadSolanaWallet pkg files (SOLANA_WALLET_PATH env);
          solanaWallet = (case attempt of Inl e \<Rightarrow> None | Inr w \<Rightarrow> Some w);
          console = (case attempt of
                       Inl e \<Rightarrow> [warning_sign @ ''  Solana wallet not found'']
                     | Inr w \<Rightarrow> [])
      in case (solanaWallet, evm_key env) of
           (None, None) \<Rightarrow>
             (console @
                [cross_mark @ '' No wallets found'',
                 CHR 0x0A # light_bulb @ '' Setup:'',
                 ''   Solana: solana-keygen new --outfile ./src/client.json'',
                 ''   EVM: Add EVM_PRIVATE_KEY=0x... to .env''],
              Inl NoWalletsAvailable)
         | (Some w, Some key) \<Rightarrow>
             (console,
              case await_signer pkg (SOLANA_NETWORK env) (privateKeyBase58 w) of
                Inl e \<Rightarrow> Inl e
              | Inr svmSigner \<Rightarrow>
                  (case await_signer pkg (EVM_NETWORK env) key of
                     Inl e \<Rightarrow> Inl e
                   | Inr evmSigner \<Rightarrow>
                       Inr \<lparr>signer = Multi evmSigner svmSigner,
                            walletInfo =
                              \<lparr>solana = Some (publicKey w, SOLANA_NETWORK env),
                               evm_network = Some (EVM_NETWORK env)\<rparr>\<rparr>))
         | (Some w, None) \<Rightarrow>
             (console,
              case await_signer pkg (SOLANA_NETWORK env) (privateKeyBase58 w) of
                Inl e \<Rightarrow> Inl e
              | Inr svmSigner \<Rightarrow>
                  Inr \<lparr>signer = Single svmSigner,
                       walletInfo =
                         \<lparr>solana = Some (publicKey w, SOLANA_NETWORK env),
                          evm_network = None\<rparr>\<rparr>)
         | (None, Some key) \<Rightarrow>
             (console,
              case await_signer pkg (EVM_NETWORK env) key of
                Inl e \<Rightarrow> Inl e
              | Inr evmSigner \<Rightarrow>
                  Inr \<lparr>signer = Single evmSigner,
                       walletInfo = \<lparr>solana = None, evm_network = Some (EVM_NETWORK env)\<rparr>\<rparr>))"

section \<open>The client's \<open>main\<close>\<close>













section \<open>The payment-aware request pipeline\<close>

text \<open>
  The client gets its pipeline from \<open>withPaymentInterceptor\<close>, which it imports from the
  package \<open>x402-axios\<close>: \<open>src/client.ts\<close> (lines 101-104) and \<open>src/unnamed/part_001\<close>
  (line 26) only call it, and its body is in no file of the sources. What the wrapped client
  does with a 402 is therefore modelled from the contract \<open>execute(request)\<close> of the
  specification (sections 3, 4.1, 6 and 7), step by step.
\<close>

text \<open>
  Modelled from the spec: the PaymentChallenge of section 3, with the fields section 6
  requires of a challenge body, \<open>{network, asset, recipient, amount, nonce}\<close>.
\<close>

record PaymentChallenge =
  network :: string
  asset :: string
  recipient :: string
  amount :: real
  nonce :: string

text \<open>
  Modelled from the spec: the PaymentToken of section 3: the serialized signed transaction,
  the network identifier and the echo of the challenge's nonce.
\<close>

record PaymentToken =
  signed_transaction :: string
  token_network :: string
  nonce_echo :: string

text \<open>
  Modelled from the spec: the transfer instruction of step 5, for \<open>challenge.amount\<close> of
  \<open>challenge.asset\<close> to \<open>challenge.recipient\<close>.
\<close>

record transfer =
  transfer_amount :: real
  transfer_asset :: string
  transfer_recipient :: string

text \<open>
  Modelled from the spec: the request descriptor of section 4.1 (method, path, headers,
  body), with the designated payment header of step 6 as a field of its own.
\<close>

record http_request =
  http_method :: string
  path :: string
  headers :: "(string \<times> string) list"
  request_body :: js_value
  payment_header :: "PaymentToken option"

text \<open>
  Modelled from the spec: the error taxonomy of section 7, each error with the context the
  section asks for (the raw challenge, the offending network id, the upstream response).
\<close>

datatype pipeline_error =
    ChallengeParseError js_value
  | UnsupportedNetworkError string
  | SigningError
  | PaymentRejectedError http_response
  | TransportError

text \<open>
  Modelled from the spec: what an HTTP call comes to: a response, or a failure of the
  transport (step 8: timeout, connection reset).
\<close>

datatype http_outcome =
    Responded http_response
  | TransportFailed

text \<open>
  Modelled from the spec: step 3, parsing the body of a 402 as a PaymentChallenge. The body
  must be an object with the five required fields, the amount a number and the others
  strings (as in the scenario of section 8); further fields are ignored, since the pipeline
  must stay correct under any superset of the required fields.
\<close>

definition parse_challenge :: "js_value \<Rightarrow> PaymentChallenge option" where
  "parse_challenge b =
     (case b of
        JObject kvs \<Rightarrow>
          (case (map_of kvs ''network'', map_of kvs ''asset'', map_of kvs ''recipient'',
                 map_of kvs ''amount'', map_of kvs ''nonce'') of
             (Some (JStr n), Some (JStr a), Some (JStr r), Some (JNum m), Some (JStr c)) \<Rightarrow>
               Some \<lparr>network = n, asset = a, recipient = r, amount = m, nonce = c\<rparr>
           | _ \<Rightarrow> None)
      | _ \<Rightarrow> None)"

text \<open>Modelled from the spec: the transfer instruction that step 5 constructs from a challenge.\<close>

definition transfer_of :: "PaymentChallenge \<Rightarrow> transfer" where
  "transfer_of c =
     \<lparr>transfer_amount = amount c, transfer_asset = asset c, transfer_recipient = recipient c\<rparr>"

text \<open>
  Modelled from the spec: what one call of \<open>execute\<close> comes to: the PipelineResult or the
  typed error, the HTTP calls issued, in order, and the PaymentTokens produced.
\<close>

record pipeline_run =
  result :: "pipeline_error + http_response"
  calls :: "http_request list"
  tokens :: "PaymentToken list"

text \<open>
  Modelled from the spec: \<open>execute(request)\<close>, the contract of section 4.1, which stands for
  the body of \<open>withPaymentInterceptor\<close> (package \<open>x402-axios\<close>, not in the sources).
  \<^enum> Send the request unmodified.
  \<^enum> If the status is not 402, return the response.
  \<^enum> If it is 402, parse the body as a PaymentChallenge; a parsing failure is a
    \<open>ChallengeParseError\<close>, without retry.
  \<^enum> Look up a SignerHandle for \<open>challenge.network\<close>; absence is an
    \<open>UnsupportedNetworkError\<close>, without retry.
  \<^enum> Construct the transfer and sign it; a signing failure is a \<open>SigningError\<close>.
  \<^enum> Serialize the signed transaction and the nonce echo into a PaymentToken and attach it to
    a copy of the request.
  \<^enum> Re-issue the request once; a second 402 is a \<open>PaymentRejectedError\<close>.
  \<^enum> A transport failure at step 1 or 7 is a \<open>TransportError\<close>.

  The Registry is its lookup: the function from a challenge's network identifier to the
  SignerHandle, of some type \<open>'h\<close>, that is selected for it, if there is one. \<open>sign\<close> is
  the signing capability of the external signer library (\<open>None\<close> when signing fails). The
  server is any function from the calls made so far, the current one last, to the outcome
  of the current call.
\<close>

definition execute ::
    "('h \<Rightarrow> transfer \<Rightarrow> string option) \<Rightarrow> (string \<rightharpoonup> 'h) \<Rightarrow>
     (http_request list \<Rightarrow> http_outcome) \<Rightarrow> http_request \<Rightarrow> pipeline_run" where
  "execute sign registry server request =
     (case server [request] of
        TransportFailed \<Rightarrow> \<lparr>result = Inl TransportError, calls = [request], tokens = []\<rparr>
      | Responded first \<Rightarrow>
          if status first \<noteq> 402
          then \<lparr>result = Inr first, calls = [request], tokens = []\<rparr>
          else
            (case parse_challenge (body first) of
               None \<Rightarrow>
                 \<lparr>result = Inl (ChallengeParseError (body first)), calls = [request], tokens = []\<rparr>
             | Some challenge \<Rightarrow>
                 (case registry (network challenge) of
                    None \<Rightarrow>
                      \<lparr>result = Inl (UnsupportedNetworkError (network challenge)),
                       calls = [request], tokens = []\<rparr>
                  | Some handle \<Rightarrow>
                      (case sign handle (transfer_of challenge) of
                         None \<Rightarrow> \<lparr>result = Inl SigningError, calls = [request], tokens = []\<rparr>
                       | Some signed \<Rightarrow>
                           (let token = \<lparr>signed_transaction = signed,
                                         token_network = network challenge,
                                         nonce_echo = nonce challenge\<rparr>;
                                retry = request\<lparr>payment_header := Some token\<rparr>
                            in case server [request, retry] of
                                 TransportFailed \<Rightarrow>
                                   \<lparr>result = Inl TransportError,
                                    calls = [request, retry], tokens = [token]\<rparr>
                               | Responded second \<Rightarrow>
                                   if status second = 402
                                   then \<lparr>result = Inl (PaymentRejectedError second),
                                         calls = [request, retry], tokens = [token]\<rparr>
                                   else \<lparr>result = Inr second,
                                         calls = [request, retry], tokens = [token]\<rparr>)))))"


section \<open>Concrete inputs\<close>

text \<open>
  A reply of the language model in a fence: a space, three backticks and \<open>json\<close>, a line
  feed, \<open>{\<close>, the control character BEL, \<open>}\<close>, a line feed, three backticks, a line feed
  and a space.
\<close>

definition fenced_reply :: jsstring where
  "fenced_reply =
     [32, 96, 96, 96, 106, 115, 111, 110, 10, 123, 7, 125, 10, 96, 96, 96, 10, 32]"

text \<open>The position \<open>{relationships: {chain: {data: {id: c}}}, attributes: {value: v}}\<close>.\<close>

definition position_on :: "string \<Rightarrow> int \<Rightarrow> position" where
  "position_on c v =
     \<lparr>pos_relationships = Some \<lparr>rel_chain = Some \<lparr>chain_data = Some \<lparr>data_id = Some c\<rparr>\<rparr>\<rparr>,
      pos_attributes = \<lparr>attr_value = v\<rparr>\<rparr>"

text \<open>Four positions on two chains, and one that names no chain.\<close>

definition small_positions :: "position list" where
  "small_positions =
     [position_on ''ethereum'' 100, position_on ''solana'' 50, position_on ''ethereum'' 25,
      \<lparr>pos_relationships = None, pos_attributes = \<lparr>attr_value = 5\<rparr>\<rparr>]"

text \<open>Four positions on two chains, the first of value \<open>2^53 = 9007199254740992\<close>.\<close>

definition rounding_positions :: "position list" where
  "rounding_positions =
     [position_on ''base'' 9007199254740992, position_on ''solana'' 1,
      position_on ''base'' 1, position_on ''solana'' 1]"

text \<open>The sum of the magnitudes of the numbers a record holds.\<close>

fun magnitude :: "cell \<Rightarrow> int" where
  "magnitude (Num x) = \<bar>x\<bar>"
| "magnitude c = 0"

definition abs_total :: "(string \<times> cell) list \<Rightarrow> int" where
  "abs_total distribution = sum_list (map (\<lambda>p. magnitude (snd p)) distribution)"

text \<open>
  Stand-ins for the packages. \<open>base58\<close> is the encoding of \<open>bs58\<close>: a \<open>1\<close> for every
  leading zero byte, then the digits in base 58 of the number the bytes spell, most
  significant first.
\<close>

definition base58_alphabet :: string where
  "base58_alphabet = ''123456789ABCDEFGHJKLMNPQRSTUVWXYZabcdefghijkmnopqrstuvwxyz''"

fun base58_digits :: "nat \<Rightarrow> string \<Rightarrow> string" where
  "base58_digits n acc =
     (if n = 0 then acc else base58_digits (n div 58) (base58_alphabet ! (n mod 58) # acc))"

declare base58_digits.simps [simp del]

definition base58 :: "nat list \<Rightarrow> string" where
  "base58 bytes =
     replicate (length (takeWhile (\<lambda>b. b = 0) bytes)) CHR ''1'' @
     base58_digits (foldl (\<lambda>n b. n * 256 + b) 0 bytes) []"

text \<open>
  \<open>byte_array\<close> is \<open>Uint8Array.from(JSON.parse(...))\<close> on a keypair file as
  \<open>solana-keygen\<close> writes it, an array of decimal numbers with no sign, no leading zero
  and no white space; each number is taken modulo 256. It refuses every other text, of
  which \<open>JSON.parse\<close> reads some.
\<close>

fun byte_array_items :: "string \<Rightarrow> nat option \<Rightarrow> nat list \<Rightarrow> nat list option" where
  "byte_array_items [] cur acc = None"
| "byte_array_items (c # cs) cur acc =
     (if 48 \<le> (of_char c :: nat) \<and> (of_char c :: nat) \<le> 57
      then
        (case cur of
           None \<Rightarrow> byte_array_items cs (Some (of_char c - 48)) acc
         | Some n \<Rightarrow>
             if n = 0 then None
             else byte_array_items cs (Some (10 * n + (of_char c - 48))) acc)
      else if c = CHR '','' then
        (case cur of None \<Rightarrow> None | Some n \<Rightarrow> byte_array_items cs None (acc @ [n mod 256]))
      else if c = CHR '']'' \<and> cs = [] then
        (case cur of
           None \<Rightarrow> if acc = [] then Some [] else None
         | Some n \<Rightarrow> Some (acc @ [n mod 256]))
      else None)"

definition byte_array :: "string \<Rightarrow> nat list option" where
  "byte_array contents =
     (case contents of
        [] \<Rightarrow> None
      | c # cs \<Rightarrow> if c = CHR ''['' then byte_array_items cs None [] else None)"

text \<open>
  \<open>createSigner\<close> here accepts every network and key, and the signer it gives is the pair
  of the two.
\<close>

definition keypair_packages :: "(string \<times> string) packages" where
  "keypair_packages =
     \<lparr>createSigner = (\<lambda>network key. Inr (network, key)),
      parse_keypair = byte_array,
      bs58_encode = base58\<rparr>"

text \<open>
  An environment that sets \<open>EVM_PRIVATE_KEY\<close> only, to the key of the first account of a
  local development chain.
\<close>

definition evm_key_env :: environment where
  "evm_key_env =
     [''EVM_PRIVATE_KEY'' \<mapsto>
        ''0xac0974bec39a17e36ba4a6b4d238ff944bacb478cbed5efcae784d7bf4f2ff80'']"


text \<open>
  A file system with a keypair file at the default path: the 32 bytes of the secret key
  and the 32 bytes of the public key of the first test of RFC 8032, section 7.1.
\<close>

definition keypair_file :: string where
  "keypair_file =
     ''[157,97,177,157,239,253,90,96,186,132,74,244,146,236,44,196,'' @
     ''68,73,197,105,123,50,105,25,112,59,172,3,28,174,127,96,'' @
     ''215,90,152,1,130,177,10,183,213,75,254,211,201,100,7,58,'' @
     ''14,225,114,243,218,166,35,37,175,2,26,104,247,7,81,26]''"

definition wallet_files :: file_system where
  "wallet_files = [''./src/client.json'' \<mapsto> keypair_file]"



text \<open>
  The scenario of section 8 of the specification: the challenge
  \<open>{network: "solana-devnet", asset: "USDC", recipient: "R1", amount: 5000, nonce: "n1"}\<close>,
  the same body without its amount, a request, a Registry with a Solana signer and one with
  an EVM signer only, a signer library that signs and one that fails, and three gates: one
  that answers every call with the 402 and the challenge, one that answers with the 402 and
  the body without the amount, and one that answers a call with a payment token with status
  200.
\<close>

definition challenge_body :: js_value where
  "challenge_body =
     JObject [(''network'', JStr ''solana-devnet''), (''asset'', JStr ''USDC''),
              (''recipient'', JStr ''R1''), (''amount'', JNum 5000), (''nonce'', JStr ''n1'')]"

definition challenge_without_amount :: js_value where
  "challenge_without_amount =
     JObject [(''network'', JStr ''solana-devnet''), (''asset'', JStr ''USDC''),
              (''recipient'', JStr ''R1''), (''nonce'', JStr ''n1'')]"

definition premium_request :: http_request where
  "premium_request =
     \<lparr>http_method = ''GET'', path = ''/premium'', headers = [], request_body = JUndefined,
      payment_header = None\<rparr>"

definition solana_registry :: "string \<rightharpoonup> string" where
  "solana_registry = [''solana-devnet'' \<mapsto> ''solana-signer'']"

definition evm_registry :: "string \<rightharpoonup> string" where
  "evm_registry = [''base-sepolia'' \<mapsto> ''evm-signer'']"

definition signing :: "string \<Rightarrow> transfer \<Rightarrow> string option" where
  "signing handle t = Some ''signed-transfer''"

definition failing_signing :: "string \<Rightarrow> transfer \<Rightarrow> string option" where
  "failing_signing handle t = None"

definition always_402 :: "http_request list \<Rightarrow> http_outcome" where
  "always_402 cs = Responded \<lparr>status = 402, body = challenge_body\<rparr>"

definition malformed_402 :: "http_request list \<Rightarrow> http_outcome" where
  "malformed_402 cs = Responded \<lparr>status = 402, body = challenge_without_amount\<rparr>"

definition paid_server :: "http_request list \<Rightarrow> http_outcome" where
  "paid_server cs =
     (if payment_header (last cs) = None
      then Responded \<lparr>status = 402, body = challenge_body\<rparr>
      else Responded \<lparr>status = 200, body = JObject [(''message'', JStr ''premium'')]\<rparr>)"

definition settled_token :: PaymentToken where
  "settled_token =
     \<lparr>signed_transaction = ''signed-transfer'', token_network = ''solana-devnet'',
      nonce_echo = ''n1''\<rparr>"


section \<open>Properties of \<open>cleanJSONText\<close>\<close>

lemma takeWhile_dropWhile_same: "takeWhile P (dropWhile P xs) = []"
  by (induction xs) auto

lemma takeWhile_rev_dropWhile_rev:
  "takeWhile P ys = [] \<Longrightarrow> takeWhile P (rev (dropWhile P (rev ys))) = []"
  by (cases ys) (auto simp: dropWhile_append)

lemma trim_no_leading: "takeWhile isWhiteSpace (trim s) = []"
  unfolding trim_def
  by (rule takeWhile_rev_dropWhile_rev) (rule takeWhile_dropWhile_same)

lemma trim_no_trailing: "takeWhile isWhiteSpace (rev (trim s)) = []"
  unfolding trim_def by (simp add: takeWhile_dropWhile_same)

lemma set_trim: "set (trim s) \<subseteq> set s"
proof
  fix c
  assume "c \<in> set (trim s)"
  then have "c \<in> set (dropWhile isWhiteSpace (rev (dropWhile isWhiteSpace s)))"
    by (simp add: trim_def)
  then have "c \<in> set (rev (dropWhile isWhiteSpace s))"
    by (rule set_dropWhileD)
  then show "c \<in> set s"
    by (auto dest: set_dropWhileD)
qed

lemma remove_control_clean: "filter isControl (remove_control s) = []"
  by (simp add: remove_control_def filter_empty_conv)

lemma trim_keeps_clean: "filter isControl s = [] \<Longrightarrow> filter isControl (trim s) = []"
  using set_trim [of s] by (auto simp: filter_empty_conv)

text \<open>
  Claim C9. For every input string, the string \<open>cleanJSONText\<close> returns holds no control
  character of the ranges \<open>\x00-\x08\<close>, \<open>\x0B\<close>, \<open>\x0C\<close>, \<open>\x0E-\x1F\<close>, \<open>\x7F\<close> (the
  control characters in it are none), and it has no leading and no trailing white space
  (the run of white space at its start and the one at its end are empty).
\<close>

theorem cleanJSONText_clean:
  "filter isControl (cleanJSONText t) = [] \<and>
   takeWhile isWhiteSpace (cleanJSONText t) = [] \<and>
   takeWhile isWhiteSpace (rev (cleanJSONText t)) = []"
  unfolding cleanJSONText_def Let_def
  by (intro conjI trim_keeps_clean remove_control_clean trim_no_leading trim_no_trailing)

text \<open>On the fenced reply the function leaves \<open>{}\<close>.\<close>

theorem cleanJSONText_clean_witness:
  "cleanJSONText fenced_reply = [123, 125] \<and>
   filter isControl (cleanJSONText fenced_reply) = [] \<and>
   takeWhile isWhiteSpace (cleanJSONText fenced_reply) = [] \<and>
   takeWhile isWhiteSpace (rev (cleanJSONText fenced_reply)) = []"
proof -
  have "cleanJSONText fenced_reply = [123, 125]"
    by (simp add: cleanJSONText_def fenced_reply_def trim_def isWhiteSpace_def
          isLineTerminator_def isControl_def fence_def fence_json_def remove_control_def)
  with cleanJSONText_clean [of fenced_reply] show ?thesis
    by simp
qed


section \<open>Properties of the handler of \<open>POST /analyze-basic\<close>\<close>

text \<open>
  Claim C8. For every request to \<open>POST /analyze-basic\<close> whose JSON body has no truthy
  \<open>address\<close> (the body is there, so that reading \<open>address\<close> from it gives a value, and
  that value is falsy: missing, \<open>null\<close>, \<open>false\<close>, \<open>0\<close> or the empty string), the handler
  responds with status 400 and the body
  \<open>{error: "Missing required field: address", message: "Please provide a wallet address to
  analyze"}\<close>, and it does not call \<open>analyzeBasicWallet\<close>, whatever that function would do.
\<close>

theorem analyze_basic_missing_address:
  assumes "destructure_address req_body = Inr address" and "\<not> truthy address"
  shows "analyze_basic_handler analyzeBasicWallet req_body =
           \<lparr>response =
              \<lparr>status = 400,
               body = JObject
                 [(''error'', JStr ''Missing required field: address''),
                  (''message'', JStr ''Please provide a wallet address to analyze'')]\<rparr>,
            analyzed = []\<rparr>"
  using assms by (simp add: analyze_basic_handler_def)

text \<open>A body without the field, and a body whose \<open>address\<close> is the empty string.\<close>

theorem analyze_basic_missing_address_witness:
  "destructure_address (JObject [(''wallet'', JStr ''abc'')]) = Inr JUndefined \<and>
   \<not> truthy JUndefined \<and>
   destructure_address (JObject [(''address'', JStr '''')]) = Inr (JStr '''') \<and>
   \<not> truthy (JStr '''') \<and>
   response (analyze_basic_handler (\<lambda>a. Inr a) (JObject [(''wallet'', JStr ''abc'')])) =
     \<lparr>status = 400,
      body = JObject
        [(''error'', JStr ''Missing required field: address''),
         (''message'', JStr ''Please provide a wallet address to analyze'')]\<rparr> \<and>
   analyzed (analyze_basic_handler (\<lambda>a. Inr a) (JObject [(''wallet'', JStr ''abc'')])) = [] \<and>
   status (response (analyze_basic_handler (\<lambda>a. Inr a) (JObject [(''address'', JStr '''')]))) = 400 \<and>
   analyzed (analyze_basic_handler (\<lambda>a. Inr a) (JObject [(''address'', JStr '''')])) = []"
proof -
  have a: "destructure_address (JObject [(''wallet'', JStr ''abc'')]) = Inr JUndefined"
    by simp
  have b: "\<not> truthy JUndefined"
    by simp
  have c: "destructure_address (JObject [(''address'', JStr '''')]) = Inr (JStr '''')"
    by simp
  have d: "\<not> truthy (JStr '''')"
    by simp
  show ?thesis
    using a b c d
      analyze_basic_missing_address [OF a b, of "\<lambda>a. Inr a"]
      analyze_basic_missing_address [OF c d, of "\<lambda>a. Inr a"]
    by simp
qed


section \<open>Properties of \<open>calculateChainDistribution\<close>\<close>

lemma round_double_exact: "\<bar>x\<bar> \<le> 2 ^ 53 \<Longrightarrow> round_double x = x"
  by (simp add: round_double_def)

lemma js_add_exact:
  assumes "\<bar>a + b\<bar> \<le> 2 ^ 53"
  shows "js_add a b = Num (a + b)"
proof -
  have "(2::int) ^ 53 < 2 ^ 1024"
    by (rule power_strict_increasing) simp_all
  with assms have "a + b < 2 ^ 1024" and "- (2 ^ 1024) < a + b"
    by linarith+
  with assms show ?thesis
    by (simp add: js_add_def round_double_exact Let_def)
qed

lemma abs_total_nonneg: "0 \<le> abs_total distribution"
  unfolding abs_total_def
proof (rule sum_list_nonneg)
  fix x
  assume "x \<in> set (map (\<lambda>p. magnitude (snd p)) distribution)"
  then obtain c where "x = magnitude c"
    by auto
  then show "0 \<le> x"
    by (cases c) auto
qed

lemma record_total_ConsE:
  assumes "record_total (p # ps) = Some t"
  obtains x t' where "snd p = Num x" and "record_total ps = Some t'" and "t = x + t'"
  using assms by (cases p; cases "snd p") auto

text \<open>
  In a record of numbers, under a name that is not inherited: what is read is a number
  within the record's magnitude, and setting the name changes the totals by the difference.
\<close>

lemma set_own_number:
  assumes "record_total distribution = Some t" and "k \<notin> set object_prototype_names"
  shows "\<exists>x. current_or_zero distribution k = Num x \<and> \<bar>x\<bar> \<le> abs_total distribution \<and>
           record_total (set_own k (Num y) distribution) = Some (t - x + y) \<and>
           abs_total (set_own k (Num y) distribution) = abs_total distribution - \<bar>x\<bar> + \<bar>y\<bar>"
  using assms
proof (induction distribution arbitrary: t)
  case Nil
  then show ?case
    by (simp add: current_or_zero_def abs_total_def)
next
  case (Cons p ps)
  from Cons.prems(1) obtain x' t' where
    p: "snd p = Num x'" and ps: "record_total ps = Some t'" and t: "t = x' + t'"
    by (rule record_total_ConsE)
  obtain k' where k': "p = (k', Num x')"
    using p by (cases p) auto
  show ?case
  proof (cases "k' = k")
    case True
    have "0 \<le> abs_total ps"
      by (rule abs_total_nonneg)
    then show ?thesis
      using True k' ps t by (simp add: current_or_zero_def abs_total_def)
  next
    case False
    from Cons.IH [OF ps Cons.prems(2)] obtain x where
      "current_or_zero ps k = Num x" "\<bar>x\<bar> \<le> abs_total ps"
      "record_total (set_own k (Num y) ps) = Some (t' - x + y)"
      "abs_total (set_own k (Num y) ps) = abs_total ps - \<bar>x\<bar> + \<bar>y\<bar>"
      by blast
    then show ?thesis
      using False k' t by (simp add: current_or_zero_def abs_total_def)
  qed
qed

lemma chain_not_proto: "k \<notin> set object_prototype_names \<Longrightarrow> k \<noteq> ''__proto__''"
  by (auto simp: object_prototype_names_def)

lemma add_position_exact:
  assumes "record_total distribution = Some t"
    and "chain_of pos \<notin> set object_prototype_names"
    and "abs_total distribution + \<bar>attr_value (pos_attributes pos)\<bar> \<le> 2 ^ 53"
  shows "record_total (add_position distribution pos) =
           Some (t + attr_value (pos_attributes pos))"
    and "abs_total (add_position distribution pos) \<le>
           abs_total distribution + \<bar>attr_value (pos_attributes pos)\<bar>"
proof -
  let ?k = "chain_of pos"
  let ?v = "attr_value (pos_attributes pos)"
  have own: "assign ?k c distribution = set_own ?k c distribution" for c
    using chain_not_proto [OF assms(2)] by (simp add: assign_def)
  obtain x where cur: "current_or_zero distribution ?k = Num x"
    and bound: "\<bar>x\<bar> \<le> abs_total distribution"
    using set_own_number [OF assms(1,2)] by blast
  from bound assms(3) have "\<bar>x + ?v\<bar> \<le> 2 ^ 53"
    by linarith
  then have exact: "js_add x ?v = Num (x + ?v)"
    by (rule js_add_exact)
  have step: "add_position distribution pos = set_own ?k (Num (x + ?v)) distribution"
    by (simp add: add_position_def Let_def own cur plus_number_def exact)
  from set_own_number [OF assms(1,2), of "x + ?v"] cur
  have total: "record_total (set_own ?k (Num (x + ?v)) distribution) = Some (t - x + (x + ?v))"
    and magn: "abs_total (set_own ?k (Num (x + ?v)) distribution) =
                 abs_total distribution - \<bar>x\<bar> + \<bar>x + ?v\<bar>"
    by auto
  show "record_total (add_position distribution pos) = Some (t + ?v)"
    using total by (simp add: step)
  show "abs_total (add_position distribution pos) \<le> abs_total distribution + \<bar>?v\<bar>"
    using magn by (simp add: step)
qed

lemma forEach_position_exact:
  "record_total distribution = Some t \<Longrightarrow>
   \<forall>pos \<in> set positions. chain_of pos \<notin> set object_prototype_names \<Longrightarrow>
   abs_total distribution +
     sum_list (map (\<lambda>pos. \<bar>attr_value (pos_attributes pos)\<bar>) positions) \<le> 2 ^ 53 \<Longrightarrow>
   record_total (forEach_position distribution positions) = Some (t + positions_total positions)"
proof (induction positions arbitrary: distribution t)
  case Nil
  then show ?case by (simp add: positions_total_def)
next
  case (Cons pos positions)
  let ?x = "attr_value (pos_attributes pos)"
  let ?rest = "sum_list (map (\<lambda>pos. \<bar>attr_value (pos_attributes pos)\<bar>) positions)"
  have rest: "0 \<le> ?rest"
    by (rule sum_list_nonneg) auto
  from Cons.prems(2) have chain: "chain_of pos \<notin> set object_prototype_names"
    and chains: "\<forall>pos \<in> set positions. chain_of pos \<notin> set object_prototype_names"
    by simp_all
  from Cons.prems(3) have bound: "abs_total distribution + \<bar>?x\<bar> + ?rest \<le> 2 ^ 53"
    by simp
  with rest have step: "abs_total distribution + \<bar>?x\<bar> \<le> 2 ^ 53"
    by linarith
  note exact = add_position_exact [OF Cons.prems(1) chain step]
  have "abs_total (add_position distribution pos) + ?rest \<le> 2 ^ 53"
    using exact(2) bound by linarith
  from Cons.IH [OF exact(1) chains this] show ?case
    by (simp add: positions_total_def)
qed

lemma bitlen_above_2_53: "bitlen 9007199254740993 = 54"
  by code_simp

lemma round_double_above_2_53: "round_double 9007199254740993 = 9007199254740992"
  by (simp add: round_double_def bitlen_above_2_53 Let_def)

lemma js_add_above_2_53: "js_add 9007199254740992 1 = Num 9007199254740992"
proof -
  have "(9007199254740992::int) < 2 ^ 1024"
    using power_strict_increasing [of 53 1024 "2::int"] by simp
  then show ?thesis
    by (simp add: js_add_def round_double_above_2_53 Let_def)
qed

lemma small_chains:
  "map chain_of small_positions = [''ethereum'', ''solana'', ''ethereum'', ''unknown'']"
  by (simp add: small_positions_def position_on_def chain_of_def)

text \<open>
  Claim C10, as stated: for every list of positions whose values are numbers, the sum of
  the values of the record \<open>calculateChainDistribution\<close> returns equals the sum of the
  values of the positions. It fails where an addition rounds. On the four positions
  \<open>base: 2^53\<close>, \<open>solana: 1\<close>, \<open>base: 1\<close>, \<open>solana: 1\<close> the function adds \<open>1\<close> to
  \<open>9007199254740992\<close>, which as a double is \<open>9007199254740992\<close> again, and returns
  \<open>{base: 9007199254740992, solana: 2}\<close>: the record sums to \<open>9007199254740994\<close>, the values
  of the positions to \<open>9007199254740995\<close> (and to \<open>9007199254740992\<close> when JavaScript adds them
  up from left to right). It also fails for a chain id that a plain object inherits: for
  one position of value \<open>5\<close> on the chain \<open>__proto__\<close> the record stays empty.
\<close>

theorem chain_distribution_total_counterexample:
  "calculateChainDistribution rounding_positions =
     [(''base'', Num 9007199254740992), (''solana'', Num 2)] \<and>
   record_total (calculateChainDistribution rounding_positions) = Some 9007199254740994 \<and>
   positions_total rounding_positions = 9007199254740995 \<and>
   js_sum (map (\<lambda>pos. attr_value (pos_attributes pos)) rounding_positions) =
     Num 9007199254740992 \<and>
   record_total (calculateChainDistribution rounding_positions) \<noteq>
     Some (positions_total rounding_positions) \<and>
   calculateChainDistribution [position_on ''__proto__'' 5] = [] \<and>
   record_total (calculateChainDistribution [position_on ''__proto__'' 5]) = Some 0 \<and>
   positions_total [position_on ''__proto__'' 5] = 5"
  by (simp add: calculateChainDistribution_def rounding_positions_def position_on_def
        add_position_def chain_of_def current_or_zero_def plus_number_def assign_def
        object_prototype_names_def js_add_above_2_53 js_add_exact positions_total_def
        js_sum_def)

text \<open>
  Claim C10, amended: for every list of positions whose chain ids are not names inherited
  from \<open>Object.prototype\<close> and whose values are integers with magnitudes that sum to at
  most \<open>2^53\<close> (so that no addition of the function rounds), the record
  \<open>calculateChainDistribution\<close> returns holds numbers only, and their sum equals the sum of
  the values of the positions.
\<close>

theorem chain_distribution_total_exact:
  assumes "\<forall>pos \<in> set positions. chain_of pos \<notin> set object_prototype_names"
    and "sum_list (map (\<lambda>pos. \<bar>attr_value (pos_attributes pos)\<bar>) positions) \<le> 2 ^ 53"
  shows "record_total (calculateChainDistribution positions) = Some (positions_total positions)"
  using forEach_position_exact [of "[]" 0 positions] assms
  by (simp add: calculateChainDistribution_def abs_total_def)

text \<open>Values 100, 50, 25 and 5 on \<open>ethereum\<close>, \<open>solana\<close>, \<open>ethereum\<close> and no chain.\<close>

theorem chain_distribution_total_exact_witness:
  "list_all (\<lambda>k. k \<notin> set object_prototype_names) (map chain_of small_positions) \<and>
   sum_list (map (\<lambda>pos. \<bar>attr_value (pos_attributes pos)\<bar>) small_positions) \<le> 2 ^ 53 \<and>
   calculateChainDistribution small_positions =
     [(''ethereum'', Num 125), (''solana'', Num 50), (''unknown'', Num 5)] \<and>
   record_total (calculateChainDistribution small_positions) = Some 180 \<and>
   positions_total small_positions = 180"
proof -
  have names: "list_all (\<lambda>k. k \<notin> set object_prototype_names) (map chain_of small_positions)"
    by (simp add: small_chains object_prototype_names_def)
  then have chains: "\<forall>pos \<in> set small_positions. chain_of pos \<notin> set object_prototype_names"
    by (simp add: list_all_iff)
  have small: "sum_list (map (\<lambda>pos. \<bar>attr_value (pos_attributes pos)\<bar>) small_positions) \<le> 2 ^ 53"
    by (simp add: small_positions_def position_on_def)
  have total: "positions_total small_positions = 180"
    by (simp add: positions_total_def small_positions_def position_on_def)
  have "calculateChainDistribution small_positions =
          [(''ethereum'', Num 125), (''solana'', Num 50), (''unknown'', Num 5)]"
    by (simp add: calculateChainDistribution_def small_positions_def position_on_def
          add_position_def chain_of_def current_or_zero_def plus_number_def assign_def
          object_prototype_names_def js_add_exact)
  with names small total chain_distribution_total_exact [OF chains small] show ?thesis
    by simp
qed

section \<open>Properties of \<open>loadMultiNetworkSigners\<close>\<close>

text \<open>The function by the outcome of \<open>loadSolanaWallet\<close>: the wallet is missing, or it is found.\<close>

lemma wallet_missing:
  "loadSolanaWallet pkg files (SOLANA_WALLET_PATH env) = Inl e \<Longrightarrow>
   loadMultiNetworkSigners pkg env files =
     (case evm_key env of
        None \<Rightarrow>
          ([warning_sign @ ''  Solana wallet not found'',
            cross_mark @ '' No wallets found'',
            CHR 0x0A # light_bulb @ '' Setup:'',
            ''   Solana: solana-keygen new --outfile ./src/client.json'',
            ''   EVM: Add EVM_PRIVATE_KEY=0x... to .env''],
           Inl NoWalletsAvailable)
      | Some key \<Rightarrow>
          ([warning_sign @ ''  Solana wallet not found''],
           case await_signer pkg (EVM_NETWORK env) key of
             Inl e \<Rightarrow> Inl e
           | Inr evmSigner \<Rightarrow>
               Inr \<lparr>signer = Single evmSigner,
                    walletInfo = \<lparr>solana = None, evm_network = Some (EVM_NETWORK env)\<rparr>\<rparr>))"
  by (simp add: loadMultiNetworkSigners_def split: option.splits)

lemma wallet_found:
  "loadSolanaWallet pkg files (SOLANA_WALLET_PATH env) = Inr w \<Longrightarrow>
   loadMultiNetworkSigners pkg env files =
     ([],
      case await_signer pkg (SOLANA_NETWORK env) (privateKeyBase58 w) of
        Inl e \<Rightarrow> Inl e
      | Inr svmSigner \<Rightarrow>
          (case evm_key env of
             None \<Rightarrow>
               Inr \<lparr>signer = Single svmSigner,
                    walletInfo =
                      \<lparr>solana = Some (publicKey w, SOLANA_NETWORK env), evm_network = None\<rparr>\<rparr>
           | Some key \<Rightarrow>
               (case await_signer pkg (EVM_NETWORK env) key of
                  Inl e \<Rightarrow> Inl e
                | Inr evmSigner \<Rightarrow>
                    Inr \<lparr>signer = Multi evmSigner svmSigner,
                         walletInfo =
                           \<lparr>solana = Some (publicKey w, SOLANA_NETWORK env),
                            evm_network = Some (EVM_NETWORK env)\<rparr>\<rparr>)))"
  by (simp add: loadMultiNetworkSigners_def split: option.splits sum.splits)

text \<open>
  What \<open>base58\<close> gives for a number spelled by digits in base 58 that do not start with
  zero: the characters of these digits.
\<close>

lemma base58_digits_spelled:
  assumes "\<forall>d \<in> set ds. d < 58" and "ds \<noteq> [] \<longrightarrow> hd ds \<noteq> 0"
  shows "base58_digits (foldl (\<lambda>n d. n * 58 + d) 0 ds) acc =
           map ((!) base58_alphabet) ds @ acc"
  using assms
proof (induction ds arbitrary: acc rule: rev_induct)
  case Nil
  then show ?case
    by (simp add: base58_digits.simps)
next
  case (snoc d ds)
  let ?v = "foldl (\<lambda>n d. n * 58 + d) 0 ds"
  from snoc.prems(1) have d: "d < 58" and ds: "\<forall>d \<in> set ds. d < 58"
    by simp_all
  show ?case
  proof (cases "ds = []")
    case True
    with snoc.prems(2) d show ?thesis
      by (simp add: base58_digits.simps [of d] base58_digits.simps [of 0])
  next
    case False
    with snoc.prems(2) have hd: "ds \<noteq> [] \<longrightarrow> hd ds \<noteq> 0"
      by simp
    have "?v \<noteq> 0"
      using False hd
    proof (induction ds rule: rev_induct)
      case Nil
      then show ?case by simp
    next
      case (snoc x xs)
      then show ?case
        by (cases "xs = []") auto
    qed
    then have "base58_digits (?v * 58 + d) acc = base58_digits ?v (base58_alphabet ! d # acc)"
      using d by (simp add: base58_digits.simps [of "?v * 58 + d"])
    with snoc.IH [OF ds hd, of "base58_alphabet ! d # acc"] show ?thesis
      by simp
  qed
qed

text \<open>The stand-in packages on the keypair file, and four runs with them.\<close>

lemma keypair_bytes:
  "byte_array keypair_file =
     Some [157, 97, 177, 157, 239, 253, 90, 96, 186, 132, 74, 244, 146, 236, 44, 196,
           68, 73, 197, 105, 123, 50, 105, 25, 112, 59, 172, 3, 28, 174, 127, 96,
           215, 90, 152, 1, 130, 177, 10, 183, 213, 75, 254, 211, 201, 100, 7, 58,
           14, 225, 114, 243, 218, 166, 35, 37, 175, 2, 26, 104, 247, 7, 81, 26]"
  by (simp add: byte_array_def keypair_file_def)

lemma keypair_secret:
  "base58 [157, 97, 177, 157, 239, 253, 90, 96, 186, 132, 74, 244, 146, 236, 44, 196,
          68, 73, 197, 105, 123, 50, 105, 25, 112, 59, 172, 3, 28, 174, 127, 96,
          215, 90, 152, 1, 130, 177, 10, 183, 213, 75, 254, 211, 201, 100, 7, 58,
          14, 225, 114, 243, 218, 166, 35, 37, 175, 2, 26, 104, 247, 7, 81, 26] =
     ''49W385L4rePHy6PAaQUovbD2aacgN4HsKXSMeUzRg4fmwXszN91JuMFrQRj3vMDpZuRF3ZknQBuRBoWQJEfXstMw''"
proof -
  let ?ds = "[3, 8, 29, 2, 7, 4, 19, 3, 49, 37, 22, 16, 56, 5, 22, 9, 33, 23, 27, 46,
              53, 34, 12, 1, 33, 33, 35, 39, 21, 3, 16, 50, 18, 30, 25, 20, 37, 27, 57, 24,
              39, 3, 38, 44, 54, 30, 50, 57, 21, 8, 0, 17, 52, 20, 14, 49, 23, 24, 42, 2,
              53, 20, 12, 47, 32, 52, 24, 14, 2, 32, 43, 45, 23, 10, 52, 24, 10, 46, 29, 23,
              17, 13, 38, 30, 50, 51, 20, 54] :: nat list"
  have "foldl (\<lambda>n b. n * 256 + b) 0
          [157, 97, 177, 157, 239, 253, 90, 96, 186, 132, 74, 244, 146, 236, 44, 196,
           68, 73, 197, 105, 123, 50, 105, 25, 112, 59, 172, 3, 28, 174, 127, 96,
           215, 90, 152, 1, 130, 177, 10, 183, 213, 75, 254, 211, 201, 100, 7, 58,
           14, 225, 114, 243, 218, 166, 35, 37, 175, 2, 26, 104, 247, 7, 81, 26] =
        foldl (\<lambda>n d. n * 58 + d) 0 ?ds"
    by simp
  moreover have "base58_digits (foldl (\<lambda>n d. n * 58 + d) 0 ?ds) [] =
      map ((!) base58_alphabet) ?ds @ []"
    by (rule base58_digits_spelled) simp_all
  moreover have "map ((!) base58_alphabet) ?ds =
      ''49W385L4rePHy6PAaQUovbD2aacgN4HsKXSMeUzRg4fmwXszN91JuMFrQRj3vMDpZuRF3ZknQBuRBoWQJEfXstMw''"
    by (simp add: base58_alphabet_def)
  ultimately show ?thesis
    by (simp only: base58_def takeWhile.simps replicate.simps list.size append_Nil append_Nil2)
       simp
qed

lemma keypair_address:
  "base58 [215, 90, 152, 1, 130, 177, 10, 183, 213, 75, 254, 211, 201, 100, 7, 58,
          14, 225, 114, 243, 218, 166, 35, 37, 175, 2, 26, 104, 247, 7, 81, 26] =
     ''FVen3X669xLzsi6N2V91DoiyzHzg1uAgqiT8jZ9nS96Z''"
proof -
  let ?ds = "[14, 28, 37, 45, 2, 30, 5, 5, 8, 55, 19, 57, 50, 41, 5, 21, 1, 28, 8, 0,
              12, 46, 41, 56, 57, 16, 57, 39, 0, 52, 9, 39, 48, 41, 26, 7, 42, 32, 8, 45,
              25, 8, 5, 32] :: nat list"
  have "foldl (\<lambda>n b. n * 256 + b) 0
          [215, 90, 152, 1, 130, 177, 10, 183, 213, 75, 254, 211, 201, 100, 7, 58,
           14, 225, 114, 243, 218, 166, 35, 37, 175, 2, 26, 104, 247, 7, 81, 26] =
        foldl (\<lambda>n d. n * 58 + d) 0 ?ds"
    by simp
  moreover have "base58_digits (foldl (\<lambda>n d. n * 58 + d) 0 ?ds) [] =
      map ((!) base58_alphabet) ?ds @ []"
    by (rule base58_digits_spelled) simp_all
  moreover have "map ((!) base58_alphabet) ?ds =
      ''FVen3X669xLzsi6N2V91DoiyzHzg1uAgqiT8jZ9nS96Z''"
    by (simp add: base58_alphabet_def)
  ultimately show ?thesis
    by (simp only: base58_def takeWhile.simps replicate.simps list.size append_Nil append_Nil2)
       simp
qed

lemma wallet_files_load:
  "loadSolanaWallet keypair_packages wallet_files ''./src/client.json'' =
     Inr \<lparr>privateKeyBase58 =
            ''49W385L4rePHy6PAaQUovbD2aacgN4HsKXSMeUzRg4fmwXszN91JuMFrQRj3vMDpZuRF3ZknQBuRBoWQJEfXstMw'',
          publicKey = ''FVen3X669xLzsi6N2V91DoiyzHzg1uAgqiT8jZ9nS96Z''\<rparr>"
  by (simp add: loadSolanaWallet_def wallet_files_def keypair_packages_def keypair_bytes
        keypair_secret keypair_address del: One_nat_def)

lemma no_wallet_file:
  "loadSolanaWallet keypair_packages Map.empty (SOLANA_WALLET_PATH env) =
     Inl (SolanaWalletNotFound (SOLANA_WALLET_PATH env))"
  by (simp add: loadSolanaWallet_def)

lemma default_path: "SOLANA_WALLET_PATH Map.empty = ''./src/client.json''"
  by (simp add: SOLANA_WALLET_PATH_def env_or_def)

lemma neither_load:
  "loadMultiNetworkSigners keypair_packages Map.empty Map.empty =
     ([warning_sign @ ''  Solana wallet not found'',
       cross_mark @ '' No wallets found'',
       CHR 0x0A # light_bulb @ '' Setup:'',
       ''   Solana: solana-keygen new --outfile ./src/client.json'',
       ''   EVM: Add EVM_PRIVATE_KEY=0x... to .env''],
      Inl NoWalletsAvailable)"
  unfolding wallet_missing [OF no_wallet_file]
  by (simp add: evm_key_def EVM_PRIVATE_KEY_def)

lemma solana_only_load:
  "loadMultiNetworkSigners keypair_packages Map.empty wallet_files =
     ([],
      Inr \<lparr>signer =
             Single (''solana-devnet'',
               ''49W385L4rePHy6PAaQUovbD2aacgN4HsKXSMeUzRg4fmwXszN91JuMFrQRj3vMDpZuRF3ZknQBuRBoWQJEfXstMw''),
           walletInfo =
             \<lparr>solana = Some (''FVen3X669xLzsi6N2V91DoiyzHzg1uAgqiT8jZ9nS96Z'', ''solana-devnet''),
              evm_network = None\<rparr>\<rparr>)"
proof -
  have wallet: "loadSolanaWallet keypair_packages wallet_files (SOLANA_WALLET_PATH Map.empty) =
     Inr \<lparr>privateKeyBase58 =
            ''49W385L4rePHy6PAaQUovbD2aacgN4HsKXSMeUzRg4fmwXszN91JuMFrQRj3vMDpZuRF3ZknQBuRBoWQJEfXstMw'',
          publicKey = ''FVen3X669xLzsi6N2V91DoiyzHzg1uAgqiT8jZ9nS96Z''\<rparr>"
    unfolding default_path by (rule wallet_files_load)
  show ?thesis
    unfolding wallet_found [OF wallet]
    by (simp add: evm_key_def EVM_PRIVATE_KEY_def SOLANA_NETWORK_def env_or_def
          await_signer_def keypair_packages_def)
qed

lemma evm_only_load:
  "loadMultiNetworkSigners keypair_packages evm_key_env Map.empty =
     ([warning_sign @ ''  Solana wallet not found''],
      Inr \<lparr>signer =
             Single (''base-sepolia'',
               ''0xac0974bec39a17e36ba4a6b4d238ff944bacb478cbed5efcae784d7bf4f2ff80''),
           walletInfo = \<lparr>solana = None, evm_network = Some ''base-sepolia''\<rparr>\<rparr>)"
  unfolding wallet_missing [OF no_wallet_file]
  by (simp add: evm_key_def EVM_PRIVATE_KEY_def evm_key_env_def await_signer_def
        keypair_packages_def EVM_NETWORK_def env_or_def)


text \<open>
  Claim C4, as stated: while \<open>loadMultiNetworkSigners\<close> builds the Network Signer Registry,
  a failure to locate the credentials of a configured network fails the construction and
  is not skipped in silence, unless the client explicitly runs in a degraded single-network
  mode. It fails for the EVM network. With nothing set in the environment,
  \<open>EVM_NETWORK\<close> is \<open>base-sepolia\<close> by default and there is no \<open>EVM_PRIVATE_KEY\<close>; with a
  keypair file in place, the construction succeeds on the Solana signer alone and writes
  nothing to the console. No setting has selected a mode: the function has none to read.
\<close>

theorem evm_skipped_in_silence_counterexample:
  "EVM_NETWORK Map.empty = ''base-sepolia'' \<and>
   EVM_PRIVATE_KEY Map.empty = None \<and>
   loadMultiNetworkSigners keypair_packages Map.empty wallet_files =
     ([],
      Inr \<lparr>signer =
             Single (''solana-devnet'',
               ''49W385L4rePHy6PAaQUovbD2aacgN4HsKXSMeUzRg4fmwXszN91JuMFrQRj3vMDpZuRF3ZknQBuRBoWQJEfXstMw''),
           walletInfo =
             \<lparr>solana = Some (''FVen3X669xLzsi6N2V91DoiyzHzg1uAgqiT8jZ9nS96Z'', ''solana-devnet''),
              evm_network = None\<rparr>\<rparr>)"
  by (simp add: solana_only_load EVM_NETWORK_def env_or_def EVM_PRIVATE_KEY_def)

text \<open>
  Claim C4, amended: \<open>loadMultiNetworkSigners\<close> fails for missing credentials, with
  \<open>No wallets available\<close>, exactly when neither the Solana wallet nor the EVM key is found.
  When one of the two is found and \<open>createSigner\<close> accepts it, the construction succeeds on
  that signer alone, and \<open>walletInfo\<close> names that network only, without any setting having
  selected the mode: after the warning \<open>Solana wallet not found\<close> when it is the wallet
  that is missing, and with nothing on the console when it is the EVM key.
\<close>

theorem loadMultiNetworkSigners_missing_credentials:
  "(isl (loadSolanaWallet pkg files (SOLANA_WALLET_PATH env)) \<and> evm_key env = None \<longrightarrow>
      loadMultiNetworkSigners pkg env files =
        ([warning_sign @ ''  Solana wallet not found'',
          cross_mark @ '' No wallets found'',
          CHR 0x0A # light_bulb @ '' Setup:'',
          ''   Solana: solana-keygen new --outfile ./src/client.json'',
          ''   EVM: Add EVM_PRIVATE_KEY=0x... to .env''],
         Inl NoWalletsAvailable)) \<and>
   (snd (loadMultiNetworkSigners pkg env files) = Inl NoWalletsAvailable \<longrightarrow>
      isl (loadSolanaWallet pkg files (SOLANA_WALLET_PATH env)) \<and> evm_key env = None) \<and>
   (isl (loadSolanaWallet pkg files (SOLANA_WALLET_PATH env)) \<and> evm_key env = Some key \<and>
    createSigner pkg (EVM_NETWORK env) key = Inr h \<longrightarrow>
      loadMultiNetworkSigners pkg env files =
        ([warning_sign @ ''  Solana wallet not found''],
         Inr \<lparr>signer = Single h,
              walletInfo = \<lparr>solana = None, evm_network = Some (EVM_NETWORK env)\<rparr>\<rparr>)) \<and>
   (loadSolanaWallet pkg files (SOLANA_WALLET_PATH env) = Inr w \<and> evm_key env = None \<and>
    createSigner pkg (SOLANA_NETWORK env) (privateKeyBase58 w) = Inr h \<longrightarrow>
      loadMultiNetworkSigners pkg env files =
        ([],
         Inr \<lparr>signer = Single h,
              walletInfo =
                \<lparr>solana = Some (publicKey w, SOLANA_NETWORK env), evm_network = None\<rparr>\<rparr>))"
proof (cases "loadSolanaWallet pkg files (SOLANA_WALLET_PATH env)")
  case (Inl e)
  show ?thesis
    unfolding wallet_missing [OF Inl] using Inl
    by (auto simp: await_signer_def split: option.splits sum.splits)
next
  case (Inr w')
  show ?thesis
    unfolding wallet_found [OF Inr] using Inr
    by (auto simp: await_signer_def split: option.splits sum.splits)
qed

text \<open>
  With neither a keypair file nor an EVM key the construction fails; with the EVM key
  alone it succeeds on the EVM signer, after the warning.
\<close>

theorem loadMultiNetworkSigners_missing_credentials_witness:
  "isl (loadSolanaWallet keypair_packages Map.empty (SOLANA_WALLET_PATH Map.empty)) \<and>
   evm_key Map.empty = None \<and>
   snd (loadMultiNetworkSigners keypair_packages Map.empty Map.empty) = Inl NoWalletsAvailable \<and>
   isl (loadSolanaWallet keypair_packages Map.empty (SOLANA_WALLET_PATH evm_key_env)) \<and>
   evm_key evm_key_env =
     Some ''0xac0974bec39a17e36ba4a6b4d238ff944bacb478cbed5efcae784d7bf4f2ff80'' \<and>
   createSigner keypair_packages (EVM_NETWORK evm_key_env)
       ''0xac0974bec39a17e36ba4a6b4d238ff944bacb478cbed5efcae784d7bf4f2ff80'' =
     Inr (''base-sepolia'',
          ''0xac0974bec39a17e36ba4a6b4d238ff944bacb478cbed5efcae784d7bf4f2ff80'') \<and>
   loadMultiNetworkSigners keypair_packages evm_key_env Map.empty =
     ([warning_sign @ ''  Solana wallet not found''],
      Inr \<lparr>signer =
             Single (''base-sepolia'',
               ''0xac0974bec39a17e36ba4a6b4d238ff944bacb478cbed5efcae784d7bf4f2ff80''),
           walletInfo = \<lparr>solana = None, evm_network = Some ''base-sepolia''\<rparr>\<rparr>)"
proof -
  have none: "isl (loadSolanaWallet keypair_packages Map.empty (SOLANA_WALLET_PATH env))" for env
    by (simp add: no_wallet_file)
  have nokey: "evm_key Map.empty = None"
    by (simp add: evm_key_def EVM_PRIVATE_KEY_def)
  have key: "evm_key evm_key_env =
      Some ''0xac0974bec39a17e36ba4a6b4d238ff944bacb478cbed5efcae784d7bf4f2ff80''"
    by (simp add: evm_key_def EVM_PRIVATE_KEY_def evm_key_env_def)
  have accepted: "createSigner keypair_packages (EVM_NETWORK evm_key_env)
       ''0xac0974bec39a17e36ba4a6b4d238ff944bacb478cbed5efcae784d7bf4f2ff80'' =
     Inr (''base-sepolia'',
          ''0xac0974bec39a17e36ba4a6b4d238ff944bacb478cbed5efcae784d7bf4f2ff80'')"
    by (simp add: keypair_packages_def EVM_NETWORK_def env_or_def evm_key_env_def)
  from loadMultiNetworkSigners_missing_credentials
         [of keypair_packages Map.empty Map.empty] none nokey
  have failed: "snd (loadMultiNetworkSigners keypair_packages Map.empty Map.empty) =
      Inl NoWalletsAvailable"
    by simp
  from loadMultiNetworkSigners_missing_credentials
         [of keypair_packages Map.empty evm_key_env
             "''0xac0974bec39a17e36ba4a6b4d238ff944bacb478cbed5efcae784d7bf4f2ff80''"
             "(''base-sepolia'',
               ''0xac0974bec39a17e36ba4a6b4d238ff944bacb478cbed5efcae784d7bf4f2ff80'')"]
       none key accepted
  have "loadMultiNetworkSigners keypair_packages evm_key_env Map.empty =
     ([warning_sign @ ''  Solana wallet not found''],
      Inr \<lparr>signer =
             Single (''base-sepolia'',
               ''0xac0974bec39a17e36ba4a6b4d238ff944bacb478cbed5efcae784d7bf4f2ff80''),
           walletInfo = \<lparr>solana = None, evm_network = Some (EVM_NETWORK evm_key_env)\<rparr>\<rparr>)"
    by blast
  moreover have "EVM_NETWORK evm_key_env = ''base-sepolia''"
    by (simp add: EVM_NETWORK_def env_or_def evm_key_env_def)
  ultimately show ?thesis
    using none nokey key accepted failed by simp
qed





section \<open>Properties of the client's \<open>main\<close>\<close>







section \<open>Properties of the payment-aware request pipeline\<close>

lemma parse_challenge_body:
  "parse_challenge challenge_body =
     Some \<lparr>network = ''solana-devnet'', asset = ''USDC'', recipient = ''R1'', amount = 5000,
           nonce = ''n1''\<rparr>"
  by (simp add: parse_challenge_def challenge_body_def)

lemma parse_without_amount:
  "map_of kvs ''amount'' = None \<Longrightarrow> parse_challenge (JObject kvs) = None"
  by (simp add: parse_challenge_def split: option.splits js_value.splits)

text \<open>
  The calls of a run: the request alone, or the request and its copy with the one token the
  run produced; and in the second case a 402 for the copy is a \<open>PaymentRejectedError\<close>.
\<close>

lemma execute_calls:
  "calls (execute sign registry server request) = [request] \<or>
   (\<exists>token.
      calls (execute sign registry server request) =
        [request, request\<lparr>payment_header := Some token\<rparr>] \<and>
      tokens (execute sign registry server request) = [token] \<and>
      (\<forall>second.
         server (calls (execute sign registry server request)) = Responded second \<and>
         status second = 402 \<longrightarrow>
           result (execute sign registry server request) = Inl (PaymentRejectedError second)))"
proof (cases "server [request]")
  case TransportFailed
  then show ?thesis
    by (simp add: execute_def)
next
  case (Responded first)
  show ?thesis
  proof (cases "status first = 402")
    case False
    with Responded show ?thesis
      by (simp add: execute_def)
  next
    case True
    with Responded show ?thesis
      by (auto simp: execute_def Let_def split: option.splits http_outcome.splits)
  qed
qed

text \<open>
  Claim C1. For every call of \<open>execute\<close>, whatever the signer library, the Registry, the
  server and the request are, at most one request is issued after the initial one: the
  calls start with the request itself and at most one call follows it. If that retried
  request is answered with status 402 again, the pipeline surfaces \<open>PaymentRejectedError\<close>
  to the caller, and it has issued no third request.
\<close>

theorem execute_one_retry:
  "calls (execute sign registry server request) \<noteq> [] \<and>
   hd (calls (execute sign registry server request)) = request \<and>
   length (tl (calls (execute sign registry server request))) \<le> 1 \<and>
   (calls (execute sign registry server request) = [request, retry] \<and>
    server [request, retry] = Responded second \<and> status second = 402 \<longrightarrow>
      result (execute sign registry server request) = Inl (PaymentRejectedError second))"
proof -
  let ?run = "execute sign registry server request"
  from execute_calls [of sign registry server request]
  show ?thesis
  proof
    assume once: "calls ?run = [request]"
    then show ?thesis
      by simp
  next
    assume "\<exists>token. calls ?run = [request, request\<lparr>payment_header := Some token\<rparr>] \<and>
      tokens ?run = [token] \<and>
      (\<forall>second. server (calls ?run) = Responded second \<and> status second = 402 \<longrightarrow>
         result ?run = Inl (PaymentRejectedError second))"
    then obtain token where
      twice: "calls ?run = [request, request\<lparr>payment_header := Some token\<rparr>]"
      and rejected: "\<forall>second. server (calls ?run) = Responded second \<and> status second = 402 \<longrightarrow>
         result ?run = Inl (PaymentRejectedError second)"
      by blast
    from rejected have "calls ?run = [request, retry] \<and>
        server [request, retry] = Responded second \<and> status second = 402 \<longrightarrow>
      result ?run = Inl (PaymentRejectedError second)"
      by auto
    with twice show ?thesis
      by simp
  qed
qed

text \<open>Against a gate that answers every call with a 402, two calls are made and no third.\<close>

theorem execute_one_retry_witness:
  "calls (execute signing solana_registry always_402 premium_request) =
     [premium_request, premium_request\<lparr>payment_header := Some settled_token\<rparr>] \<and>
   always_402 [premium_request, premium_request\<lparr>payment_header := Some settled_token\<rparr>] =
     Responded \<lparr>status = 402, body = challenge_body\<rparr> \<and>
   result (execute signing solana_registry always_402 premium_request) =
     Inl (PaymentRejectedError \<lparr>status = 402, body = challenge_body\<rparr>)"
proof -
  have c: "calls (execute signing solana_registry always_402 premium_request) =
     [premium_request, premium_request\<lparr>payment_header := Some settled_token\<rparr>]"
    by (simp add: execute_def always_402_def parse_challenge_body solana_registry_def
          signing_def settled_token_def Let_def)
  have s: "always_402 [premium_request, premium_request\<lparr>payment_header := Some settled_token\<rparr>] =
     Responded \<lparr>status = 402, body = challenge_body\<rparr>"
    by (simp add: always_402_def)
  from execute_one_retry [of signing solana_registry always_402 premium_request
      "premium_request\<lparr>payment_header := Some settled_token\<rparr>"
      "\<lparr>status = 402, body = challenge_body\<rparr>"] c s
  show ?thesis
    by simp
qed

text \<open>
  Claim C2, as stated: for every request whose first response is a 402 with a valid
  PaymentChallenge whose network has a signer in the Registry, \<open>execute\<close> issues exactly two
  HTTP calls and returns the second response's body and status unchanged. By steps 5 and 7
  of the contract it does not, for every such request. With the challenge of section 8 and
  a Solana signer in the Registry: when signing fails, one call is made and the result is
  \<open>SigningError\<close>; when the gate answers the retry with a 402 again, the result is
  \<open>PaymentRejectedError\<close> and not the second response.
\<close>

theorem execute_two_calls_counterexample:
  "always_402 [premium_request] = Responded \<lparr>status = 402, body = challenge_body\<rparr> \<and>
   parse_challenge challenge_body =
     Some \<lparr>network = ''solana-devnet'', asset = ''USDC'', recipient = ''R1'', amount = 5000,
           nonce = ''n1''\<rparr> \<and>
   solana_registry ''solana-devnet'' = Some ''solana-signer'' \<and>
   execute failing_signing solana_registry always_402 premium_request =
     \<lparr>result = Inl SigningError, calls = [premium_request], tokens = []\<rparr> \<and>
   length (calls (execute failing_signing solana_registry always_402 premium_request)) \<noteq> 2 \<and>
   always_402 [premium_request, premium_request\<lparr>payment_header := Some settled_token\<rparr>] =
     Responded \<lparr>status = 402, body = challenge_body\<rparr> \<and>
   result (execute signing solana_registry always_402 premium_request) =
     Inl (PaymentRejectedError \<lparr>status = 402, body = challenge_body\<rparr>) \<and>
   result (execute signing solana_registry always_402 premium_request) \<noteq>
     Inr \<lparr>status = 402, body = challenge_body\<rparr>"
  by (simp add: execute_def always_402_def parse_challenge_body solana_registry_def
        signing_def failing_signing_def settled_token_def Let_def)

text \<open>
  Claim C2, amended: for every request whose first response is a 402 with a valid
  PaymentChallenge whose network has a signer in the Registry, and whose transfer that
  signer signs, \<open>execute\<close> issues exactly two HTTP calls, the initial request and one retry
  with the payment token attached, and produces that one token; and when the retry is
  answered with a status other than 402, it returns that second response, body and status
  unchanged.
\<close>

theorem execute_paid_retry:
  assumes "server [request] = Responded first" and "status first = 402"
    and "parse_challenge (body first) = Some challenge"
    and "registry (network challenge) = Some handle"
    and "sign handle (transfer_of challenge) = Some signed"
  shows "calls (execute sign registry server request) =
           [request,
            request\<lparr>payment_header :=
              Some \<lparr>signed_transaction = signed, token_network = network challenge,
                    nonce_echo = nonce challenge\<rparr>\<rparr>] \<and>
         tokens (execute sign registry server request) =
           [\<lparr>signed_transaction = signed, token_network = network challenge,
             nonce_echo = nonce challenge\<rparr>] \<and>
         (server (calls (execute sign registry server request)) = Responded second \<and>
          status second \<noteq> 402 \<longrightarrow>
            result (execute sign registry server request) = Inr second)"
  using assms by (auto simp: execute_def Let_def split: http_outcome.splits)

text \<open>The scenario of section 8: the gate answers the retry with status 200.\<close>

theorem execute_paid_retry_witness:
  "paid_server [premium_request] = Responded \<lparr>status = 402, body = challenge_body\<rparr> \<and>
   solana_registry ''solana-devnet'' = Some ''solana-signer'' \<and>
   execute signing solana_registry paid_server premium_request =
     \<lparr>result = Inr \<lparr>status = 200, body = JObject [(''message'', JStr ''premium'')]\<rparr>,
      calls = [premium_request, premium_request\<lparr>payment_header := Some settled_token\<rparr>],
      tokens = [settled_token]\<rparr>"
proof -
  have a: "paid_server [premium_request] = Responded \<lparr>status = 402, body = challenge_body\<rparr>"
    by (simp add: paid_server_def premium_request_def)
  have b: "status \<lparr>status = 402, body = challenge_body\<rparr> = 402"
    by simp
  have c: "parse_challenge (body \<lparr>status = 402, body = challenge_body\<rparr>) =
     Some \<lparr>network = ''solana-devnet'', asset = ''USDC'', recipient = ''R1'', amount = 5000,
           nonce = ''n1''\<rparr>"
    by (simp add: parse_challenge_body)
  have d: "solana_registry (network \<lparr>network = ''solana-devnet'', asset = ''USDC'',
     recipient = ''R1'', amount = 5000, nonce = ''n1''\<rparr>) = Some ''solana-signer''"
    by (simp add: solana_registry_def)
  have e: "signing ''solana-signer'' (transfer_of \<lparr>network = ''solana-devnet'', asset = ''USDC'',
     recipient = ''R1'', amount = 5000, nonce = ''n1''\<rparr>) = Some ''signed-transfer''"
    by (simp add: signing_def)
  have f: "paid_server [premium_request, premium_request\<lparr>payment_header := Some settled_token\<rparr>] =
     Responded \<lparr>status = 200, body = JObject [(''message'', JStr ''premium'')]\<rparr>"
    by (simp add: paid_server_def)
  from execute_paid_retry
      [where server = paid_server and request = premium_request
         and registry = solana_registry and sign = signing
         and second = "\<lparr>status = 200, body = JObject [(''message'', JStr ''premium'')]\<rparr>",
       OF a b c d e] a d f
  show ?thesis
    by (simp add: settled_token_def)
qed

text \<open>
  Claim C3. For every 402 challenge whose network has no signer in the Registry, the
  pipeline issues exactly one HTTP call, produces no PaymentToken and fails with
  \<open>UnsupportedNetworkError\<close>; it makes no second call, and it does not fall back to another
  signer: the signer library is not used, whatever else the Registry holds.
\<close>

theorem execute_unsupported_network:
  assumes "server [request] = Responded first" and "status first = 402"
    and "parse_challenge (body first) = Some challenge"
    and "registry (network challenge) = None"
  shows "execute sign registry server request =
           \<lparr>result = Inl (UnsupportedNetworkError (network challenge)),
            calls = [request], tokens = []\<rparr>"
  using assms by (simp add: execute_def)

text \<open>The challenge for \<open>solana-devnet\<close> against a Registry with an EVM signer only.\<close>

theorem execute_unsupported_network_witness:
  "always_402 [premium_request] = Responded \<lparr>status = 402, body = challenge_body\<rparr> \<and>
   evm_registry ''solana-devnet'' = None \<and>
   execute signing evm_registry always_402 premium_request =
     \<lparr>result = Inl (UnsupportedNetworkError ''solana-devnet''),
      calls = [premium_request], tokens = []\<rparr>"
proof -
  have a: "always_402 [premium_request] = Responded \<lparr>status = 402, body = challenge_body\<rparr>"
    by (simp add: always_402_def)
  have b: "status \<lparr>status = 402, body = challenge_body\<rparr> = 402"
    by simp
  have c: "parse_challenge (body \<lparr>status = 402, body = challenge_body\<rparr>) =
     Some \<lparr>network = ''solana-devnet'', asset = ''USDC'', recipient = ''R1'', amount = 5000,
           nonce = ''n1''\<rparr>"
    by (simp add: parse_challenge_body)
  have d: "evm_registry (network \<lparr>network = ''solana-devnet'', asset = ''USDC'',
     recipient = ''R1'', amount = 5000, nonce = ''n1''\<rparr>) = None"
    by (simp add: evm_registry_def)
  from execute_unsupported_network
      [where server = always_402 and request = premium_request and registry = evm_registry
         and sign = signing, OF a b c d] a d
  show ?thesis
    by simp
qed

text \<open>
  Claim C6. If the first response has status 402 and its body cannot be parsed as a
  PaymentChallenge (it is malformed, or it lacks a required field such as the amount), the
  pipeline fails with \<open>ChallengeParseError\<close> and issues no retry: exactly one HTTP call is
  made in total.
\<close>

theorem execute_challenge_parse_error:
  assumes "server [request] = Responded first" and "status first = 402"
    and "parse_challenge (body first) = None \<or>
         (\<exists>kvs. body first = JObject kvs \<and> map_of kvs ''amount'' = None)"
  shows "execute sign registry server request =
           \<lparr>result = Inl (ChallengeParseError (body first)), calls = [request], tokens = []\<rparr>"
proof -
  from assms(3) have "parse_challenge (body first) = None"
    by (auto simp: parse_without_amount)
  with assms(1,2) show ?thesis
    by (simp add: execute_def)
qed

text \<open>The challenge of section 8 without its amount.\<close>

theorem execute_challenge_parse_error_witness:
  "malformed_402 [premium_request] = Responded \<lparr>status = 402, body = challenge_without_amount\<rparr> \<and>
   (\<exists>kvs. challenge_without_amount = JObject kvs \<and> map_of kvs ''amount'' = None) \<and>
   execute signing solana_registry malformed_402 premium_request =
     \<lparr>result = Inl (ChallengeParseError challenge_without_amount),
      calls = [premium_request], tokens = []\<rparr>"
proof -
  have a: "malformed_402 [premium_request] =
     Responded \<lparr>status = 402, body = challenge_without_amount\<rparr>"
    by (simp add: malformed_402_def)
  have b: "status \<lparr>status = 402, body = challenge_without_amount\<rparr> = 402"
    by simp
  have m: "\<exists>kvs. challenge_without_amount = JObject kvs \<and> map_of kvs ''amount'' = None"
    by (simp add: challenge_without_amount_def)
  then have c: "parse_challenge (body \<lparr>status = 402, body = challenge_without_amount\<rparr>) = None \<or>
     (\<exists>kvs. body \<lparr>status = 402, body = challenge_without_amount\<rparr> = JObject kvs \<and>
        map_of kvs ''amount'' = None)"
    by simp
  from execute_challenge_parse_error
      [where server = malformed_402 and request = premium_request
         and registry = solana_registry and sign = signing, OF a b c] a m
  show ?thesis
    by simp
qed

end
